theory Spec2Isabelle
  imports Main
begin

section \<open>Python values\<close>

text \<open>
  A Python \<open>str\<close> is modelled by the list of its UTF-8 bytes (\<open>string\<close>). Every string
  operation of the program (concatenation, equality, replacing the letter Z, cutting at
  a slash) acts on the bytes as it acts on the code points.

  The program is modelled as it runs without \<open>--verbose\<close>: with the flag off,
  \<open>debug_print\<close> and the \<open>[CACHE]\<close>, \<open>[API]\<close> lines of the clients print nothing.
\<close>

datatype py_error =
    Exception string
  | ValueError string
  | InvalidIsoformat string
  | JSONDecodeError
  | RequestException
  | TypeError

text \<open>
  \<open>Exception msg\<close> is \<open>raise Exception(msg)\<close> of the two clients and \<open>ValueError msg\<close> the
  constructors' complaint about a missing credential. \<open>InvalidIsoformat s\<close> is the
  \<open>ValueError\<close> of \<open>datetime.fromisoformat(s)\<close>, \<open>JSONDecodeError\<close> the one of
  \<open>response.json()\<close> on a body that is not JSON, and \<open>RequestException\<close> a transport
  failure inside \<open>requests.get\<close>. \<open>TypeError\<close> is what \<open>in\<close> and a subscript raise on a
  value that does not support them.
\<close>

subsection \<open>Decimal numerals\<close>

definition digit :: "nat \<Rightarrow> char" where
  "digit n = ''0123456789'' ! (n mod 10)"

fun str_nat :: "nat \<Rightarrow> string" where
  "str_nat n = (if n < 10 then [digit n] else str_nat (n div 10) @ [digit (n mod 10)])"

declare str_nat.simps [simp del]

definition str_int :: "int \<Rightarrow> string" where
  "str_int i = (if i < 0 then ''-'' @ str_nat (nat (- i)) else str_nat (nat i))"

definition zfill :: "nat \<Rightarrow> string \<Rightarrow> string" where
  "zfill w s = replicate (w - length s) (CHR ''0'') @ s"

subsection \<open>Naive datetimes\<close>

text \<open>
  \<open>main\<close> builds the range from \<open>datetime.now()\<close>, a datetime without time zone, so
  \<open>start_date\<close> and \<open>end_date\<close> are naive. Python orders naive datetimes by their fields,
  the year first.
\<close>

record datetime =
  year :: nat
  month :: nat
  day :: nat
  hour :: nat
  minute :: nat
  second :: nat
  microsecond :: nat

fun lex_le :: "nat list \<Rightarrow> nat list \<Rightarrow> bool" where
  "lex_le [] ys = True"
| "lex_le (x # xs) [] = False"
| "lex_le (x # xs) (y # ys) = (x < y \<or> (x = y \<and> lex_le xs ys))"

definition dt_fields :: "datetime \<Rightarrow> nat list" where
  "dt_fields d = [year d, month d, day d, hour d, minute d, second d, microsecond d]"

definition dt_le :: "datetime \<Rightarrow> datetime \<Rightarrow> bool" where
  "dt_le a b = lex_le (dt_fields a) (dt_fields b)"

definition in_range :: "datetime \<Rightarrow> datetime \<Rightarrow> datetime \<Rightarrow> bool" where
  "in_range start_date end_date t = (dt_le start_date t \<and> dt_le t end_date)"

text \<open>\<open>strftime('%Y%m%d')\<close> and \<open>strftime('%Y-%m-%d')\<close>: zero-padded year, month and day.\<close>

definition strftime_Ymd :: "datetime \<Rightarrow> string" where
  "strftime_Ymd d =
     zfill 4 (str_nat (year d)) @ zfill 2 (str_nat (month d)) @ zfill 2 (str_nat (day d))"

definition strftime_Y_m_d :: "datetime \<Rightarrow> string" where
  "strftime_Y_m_d d =
     zfill 4 (str_nat (year d)) @ ''-'' @ zfill 2 (str_nat (month d)) @ ''-''
       @ zfill 2 (str_nat (day d))"

text \<open>
  \<open>s.replace('Z', '+00:00')\<close>. The parsed timestamp is a wall-clock datetime with an
  optional UTC offset (in seconds); \<open>.replace(tzinfo=None)\<close> drops the offset and keeps
  the wall-clock fields.
\<close>

definition replace_Z :: "string \<Rightarrow> string" where
  "replace_Z s = concat (map (\<lambda>c. if c = CHR ''Z'' then ''+00:00'' else [c]) s)"

type_synonym aware = "datetime \<times> int option"

definition replace_tzinfo_None :: "aware \<Rightarrow> datetime" where
  "replace_tzinfo_None p = fst p"

section \<open>The remote services and the program state\<close>

record request =
  url :: string
  params :: "(string \<times> string) list"
  headers :: "(string \<times> string) list"
  auth :: "(string \<times> string) option"

text \<open>
  A response: its status, its body as text, and the body decoded by \<open>response.json()\<close>
  (\<open>None\<close> when the body is not JSON).
\<close>

record 'a response =
  status_code :: int
  response_text :: string
  json_body :: "'a option"

text \<open>
  An element of the code-hosting response, and the record the client makes of it. A key
  the clients read with a subscript is a field here, with the type the service documents
  for it: an answer that lacks such a key, or has null in its place, is not among the
  answers of the model (the real client raises \<open>KeyError\<close> or \<open>TypeError\<close> on it).
\<close>

record pr_item =
  pr_number :: int
  pr_title :: string
  pr_state :: string
  pr_created_at :: string
  pr_updated_at :: string
  pr_user_login :: string

record pr_record =
  number :: int
  title :: string
  state :: string
  created_at :: string
  updated_at :: string
  repo :: string
  author :: string

text \<open>
  The issue tracker's answer. A key the client reads with \<open>.get\<close> or tests with \<open>in\<close> is
  optional; \<open>fromString\<close> and \<open>toString\<close> hold a string or JSON null.
\<close>

datatype jstring = JNull | JStr string

record history_item =
  item_field :: string
  fromString :: "jstring option"
  toString :: "jstring option"

record history =
  created :: string
  items :: "history_item list option"

record jira_issue =
  issue_key :: string
  fields_summary :: string
  fields_status_name :: string
  fields_updated :: string
  changelog :: "history list option option"

record search_result =
  issues :: "jira_issue list option"

record issue_record =
  key :: string
  summary :: string
  status :: string
  updated :: string
  changes :: "string list"

text \<open>
  What the program does not control: the standard library's \<open>datetime.fromisoformat\<close>
  (\<open>None\<close> where it raises), the answer of each service to the \<open>n\<close>-th request of the run
  (\<open>None\<close> where \<open>requests.get\<close> itself raises), and whether the cache file can be
  opened for writing.
\<close>

record env =
  fromisoformat :: "string \<Rightarrow> aware option"
  github_api :: "nat \<Rightarrow> request \<Rightarrow> pr_item list response option"
  jira_api :: "nat \<Rightarrow> request \<Rightarrow> search_result response option"
  disk_writable :: bool

text \<open>
  The cache file on disk: \<open>Missing\<close>, \<open>Unreadable\<close> (\<open>open\<close> raises), \<open>Corrupt\<close> (the content
  is not JSON, \<open>json.load\<close> raises), \<open>Stored m\<close> (the JSON object \<open>m\<close> of record lists, as
  \<open>save_cache\<close> writes it) or \<open>StoredOther v\<close> (JSON that \<open>json.load\<close> reads as a value \<open>v\<close>
  that is not an object: null, a boolean, a number, a string, a list). \<open>loaded\<close> is what
  \<open>json.load\<close> gives back.
\<close>

datatype py_value =
    PyNone
  | PyBool bool
  | PyInt int
  | PyStr string
  | PyList "py_value list"

datatype loaded =
    Dict "string \<rightharpoonup> pr_record list"
  | NotDict py_value

datatype file_state =
    Missing
  | Unreadable
  | Corrupt
  | Stored "string \<rightharpoonup> pr_record list"
  | StoredOther py_value

text \<open>
  The object of class \<open>GitHubClient\<close>, with its \<open>_cache\<close> of type \<open>'c\<close>. The methods use
  \<open>_cache\<close> as a dict, the type \<open>_load_cache\<close> declares, and are modelled on a
  \<open>GitHubClient\<close>, whose cache is one; the constructor stores whatever \<open>_load_cache\<close>
  returned.
\<close>

record 'c github_object =
  token :: string
  base_url :: string
  cache_file :: string
  cache :: 'c

type_synonym GitHubClient = "(string \<rightharpoonup> pr_record list) github_object"

record JiraClient =
  jira_base_url :: string
  username :: string
  api_token :: string

text \<open>
  What the console shows (the layout of a line is left out), and the state a call
  changes: the code-hosting client with its cache, the cache file, the requests sent so
  far and the console.
\<close>

datatype line =
    SaveWarning
  | CacheWarning string py_error
  | MemberHeader string
  | JiraActivities "issue_record list"
  | NoJiraActivities
  | JiraError py_error
  | RepoError string py_error
  | PullRequests "pr_record list"
  | NoPullRequests

record world =
  gh :: GitHubClient
  disk :: file_state
  sent :: "request list"
  console :: "line list"

definition print_line :: "line \<Rightarrow> world \<Rightarrow> world" where
  "print_line l w = w\<lparr>console := console w @ [l]\<rparr>"

section \<open>github\_client.py\<close>

text \<open>
  \<open>_load_cache\<close>: the empty dict when the file does not exist and when \<open>open\<close> or
  \<open>json.load\<close> raises, and otherwise what \<open>json.load\<close> returned, whatever it is.
\<close>

definition load_cache :: "file_state \<Rightarrow> loaded" where
  "load_cache f =
     (case f of
        Missing \<Rightarrow> Dict Map.empty
      | Unreadable \<Rightarrow> Dict Map.empty
      | Corrupt \<Rightarrow> Dict Map.empty
      | Stored m \<Rightarrow> Dict m
      | StoredOther v \<Rightarrow> NotDict v)"

definition GitHubClient_init ::
  "string option \<Rightarrow> file_state \<Rightarrow> py_error + loaded github_object" where
  "GitHubClient_init github_token f =
     (case github_token of
        None \<Rightarrow> Inl (ValueError ''GITHUB_TOKEN environment variable is required'')
      | Some t \<Rightarrow>
          if t = [] then Inl (ValueError ''GITHUB_TOKEN environment variable is required'')
          else Inr \<lparr>token = t, base_url = ''https://api.github.com'',
                    cache_file = ''.github_cache.json'', cache = load_cache f\<rparr>)"

definition save_cache :: "env \<Rightarrow> world \<Rightarrow> world" where
  "save_cache e w =
     (if disk_writable e then w\<lparr>disk := Stored (cache (gh w))\<rparr>
      else print_line SaveWarning w)"

definition get_cache_key :: "string \<Rightarrow> datetime \<Rightarrow> datetime \<Rightarrow> string" where
  "get_cache_key repo_name start_date end_date =
     repo_name @ ''_'' @ strftime_Ymd start_date @ ''_'' @ strftime_Ymd end_date"

definition pulls_request :: "'c github_object \<Rightarrow> string \<Rightarrow> request" where
  "pulls_request self repo_name =
     \<lparr>url = base_url self @ ''/repos/'' @ ''aziontech'' @ ''/'' @ repo_name @ ''/pulls'',
      params = [(''state'', ''all''), (''sort'', ''updated''), (''direction'', ''desc''),
                (''per_page'', ''100'')],
      headers = [(''Authorization'', ''token '' @ token self),
                 (''Accept'', ''application/vnd.github.v3+json'')],
      auth = None\<rparr>"

definition to_record :: "string \<Rightarrow> pr_item \<Rightarrow> pr_record" where
  "to_record repo_name pr =
     \<lparr>number = pr_number pr, title = pr_title pr, state = pr_state pr,
      created_at = pr_created_at pr, updated_at = pr_updated_at pr,
      repo = repo_name, author = pr_user_login pr\<rparr>"

text \<open>The loop over \<open>prs_data\<close>; \<open>all_prs\<close> is the list it appends to.\<close>

fun collect_prs ::
  "env \<Rightarrow> string \<Rightarrow> datetime \<Rightarrow> datetime \<Rightarrow> pr_item list \<Rightarrow> pr_record list
    \<Rightarrow> py_error + pr_record list" where
  "collect_prs e repo_name start_date end_date [] all_prs = Inr all_prs"
| "collect_prs e repo_name start_date end_date (pr # rest) all_prs =
     (case fromisoformat e (replace_Z (pr_updated_at pr)) of
        None \<Rightarrow> Inl (InvalidIsoformat (replace_Z (pr_updated_at pr)))
      | Some parsed \<Rightarrow>
          let pr_date = replace_tzinfo_None parsed in
          if dt_le start_date pr_date \<and> dt_le pr_date end_date
          then collect_prs e repo_name start_date end_date rest
                 (all_prs @ [to_record repo_name pr])
          else collect_prs e repo_name start_date end_date rest all_prs)"

definition cache_put :: "string \<Rightarrow> pr_record list \<Rightarrow> world \<Rightarrow> world" where
  "cache_put k v w = w\<lparr>gh := (gh w)\<lparr>cache := (cache (gh w))(k := Some v)\<rparr>\<rparr>"

definition get_all_pull_requests ::
  "env \<Rightarrow> string \<Rightarrow> datetime \<Rightarrow> datetime \<Rightarrow> world
    \<Rightarrow> (py_error + pr_record list) \<times> world" where
  "get_all_pull_requests e repo_name start_date end_date w =
     (let cache_key = get_cache_key repo_name start_date end_date in
      case cache (gh w) cache_key of
        Some cached \<Rightarrow> (Inr cached, w)
      | None \<Rightarrow>
          (let req = pulls_request (gh w) repo_name;
               w1 = w\<lparr>sent := sent w @ [req]\<rparr>
           in (case github_api e (length (sent w)) req of
                 None \<Rightarrow> (Inl RequestException, w1)
               | Some response \<Rightarrow>
                   if status_code response \<noteq> 200
                   then (Inl (Exception (''GitHub API error: ''
                           @ str_int (status_code response) @ '' - ''
                           @ response_text response)), w1)
                   else
                     (case json_body response of
                        None \<Rightarrow> (Inl JSONDecodeError, w1)
                      | Some prs_data \<Rightarrow>
                          (case collect_prs e repo_name start_date end_date prs_data [] of
                             Inl ex \<Rightarrow> (Inl ex, w1)
                           | Inr all_prs \<Rightarrow>
                               (Inr all_prs,
                                save_cache e (cache_put cache_key all_prs w1)))))))"

definition get_user_pull_requests ::
  "env \<Rightarrow> string \<Rightarrow> string \<Rightarrow> datetime \<Rightarrow> datetime \<Rightarrow> world
    \<Rightarrow> (py_error + pr_record list) \<times> world" where
  "get_user_pull_requests e repo_name user start_date end_date w =
     (case get_all_pull_requests e repo_name start_date end_date w of
        (Inl ex, w') \<Rightarrow> (Inl ex, w')
      | (Inr all_prs, w') \<Rightarrow> (Inr (filter (\<lambda>pr. author pr = user) all_prs), w'))"

text \<open>
  \<open>get_all_pull_requests\<close> on an object whose \<open>_cache\<close> is not a dict. The test
  \<open>cache_key in self._cache\<close> raises on \<open>None\<close>, a boolean and a number, looks for a
  substring in a string and for an element in a list; where it holds, the subscript
  \<open>self._cache[cache_key]\<close> raises; where it does not, the request is sent and the answer
  filtered as usual, and the store \<open>self._cache[cache_key] = all_prs\<close> raises. So the call
  always ends in an exception; the result is the exception and the requests sent.
\<close>

fun contains_str :: "string \<Rightarrow> string \<Rightarrow> bool" where
  "contains_str k [] = (k = [])"
| "contains_str k (c # cs) = (take (length k) (c # cs) = k \<or> contains_str k cs)"

definition py_in :: "string \<Rightarrow> py_value \<Rightarrow> py_error + bool" where
  "py_in k v =
     (case v of
        PyNone \<Rightarrow> Inl TypeError
      | PyBool b \<Rightarrow> Inl TypeError
      | PyInt i \<Rightarrow> Inl TypeError
      | PyStr s \<Rightarrow> Inr (contains_str k s)
      | PyList xs \<Rightarrow> Inr (PyStr k \<in> set xs))"

definition get_all_pull_requests_not_dict ::
  "env \<Rightarrow> py_value github_object \<Rightarrow> string \<Rightarrow> datetime \<Rightarrow> datetime \<Rightarrow> request list
    \<Rightarrow> py_error \<times> request list" where
  "get_all_pull_requests_not_dict e self repo_name start_date end_date rs =
     (let cache_key = get_cache_key repo_name start_date end_date in
      case py_in cache_key (cache self) of
        Inl ex \<Rightarrow> (ex, rs)
      | Inr True \<Rightarrow> (TypeError, rs)
      | Inr False \<Rightarrow>
          (let req = pulls_request self repo_name in
           (case github_api e (length rs) req of
              None \<Rightarrow> (RequestException, rs @ [req])
            | Some response \<Rightarrow>
                if status_code response \<noteq> 200
                then (Exception (''GitHub API error: ''
                        @ str_int (status_code response) @ '' - ''
                        @ response_text response), rs @ [req])
                else
                  (case json_body response of
                     None \<Rightarrow> (JSONDecodeError, rs @ [req])
                   | Some prs_data \<Rightarrow>
                       (case collect_prs e repo_name start_date end_date prs_data [] of
                          Inl ex \<Rightarrow> (ex, rs @ [req])
                        | Inr all_prs \<Rightarrow> (TypeError, rs @ [req]))))))"

section \<open>jira\_client.py\<close>

definition JiraClient_init ::
  "string option \<Rightarrow> string option \<Rightarrow> string option \<Rightarrow> py_error + JiraClient" where
  "JiraClient_init b u t =
     (case (b, u, t) of
        (Some b', Some u', Some t') \<Rightarrow>
          if b' \<noteq> [] \<and> u' \<noteq> [] \<and> t' \<noteq> []
          then Inr \<lparr>jira_base_url = b', username = u', api_token = t'\<rparr>
          else Inl (ValueError
            ''Missing Jira credentials. Set JIRA_BASE_URL, JIRA_USERNAME, and JIRA_API_TOKEN'')
      | _ \<Rightarrow> Inl (ValueError
            ''Missing Jira credentials. Set JIRA_BASE_URL, JIRA_USERNAME, and JIRA_API_TOKEN''))"

definition dquote :: string where
  "dquote = [CHR 0x22]"

definition jql_query :: "string \<Rightarrow> datetime \<Rightarrow> datetime \<Rightarrow> string" where
  "jql_query email start_date end_date =
     ''assignee = '' @ dquote @ email @ dquote
       @ '' AND updated >= '' @ dquote @ strftime_Y_m_d start_date @ dquote
       @ '' AND updated <= '' @ dquote @ strftime_Y_m_d end_date @ dquote"

definition search_request :: "JiraClient \<Rightarrow> string \<Rightarrow> datetime \<Rightarrow> datetime \<Rightarrow> request" where
  "search_request self email start_date end_date =
     \<lparr>url = jira_base_url self @ ''/rest/api/3/search'',
      params = [(''jql'', jql_query email start_date end_date),
                (''fields'', ''key,summary,status,assignee,updated''),
                (''expand'', ''changelog''), (''maxResults'', ''100'')],
      headers = [(''Accept'', ''application/json'')],
      auth = Some (username self, api_token self)\<rparr>"

text \<open>
  The f-string of a change. \<open>item.get(k, 'None')\<close> gives the text \<open>None\<close> for a missing
  key, and a JSON null prints as \<open>None\<close> too. Between the two values the source file has
  a space, the three characters U+00E2, U+2020, U+2019 and a space; \<open>source_arrow\<close> is
  their UTF-8 encoding. \<open>rightwards_arrow\<close> is the UTF-8 encoding of U+2192.
\<close>

definition get_or_None :: "jstring option \<Rightarrow> string" where
  "get_or_None v = (case v of None \<Rightarrow> ''None'' | Some JNull \<Rightarrow> ''None'' | Some (JStr s) \<Rightarrow> s)"

definition source_arrow :: string where
  "source_arrow = [CHR 0xC3, CHR 0xA2, CHR 0xE2, CHR 0x80, CHR 0xA0, CHR 0xE2, CHR 0x80, CHR 0x99]"

definition rightwards_arrow :: string where
  "rightwards_arrow = [CHR 0xE2, CHR 0x86, CHR 0x92]"

definition change_desc :: "history_item \<Rightarrow> string" where
  "change_desc item =
     item_field item @ '': '' @ get_or_None (fromString item)
       @ '' '' @ source_arrow @ '' '' @ get_or_None (toString item)"

definition ignored_fields :: "string list" where
  "ignored_fields = [''description'', ''Bug Template'']"

text \<open>The loop over the items of one history entry; \<open>recent_changes\<close> is appended to.\<close>

fun scan_items :: "history_item list \<Rightarrow> string list \<Rightarrow> string list" where
  "scan_items [] recent_changes = recent_changes"
| "scan_items (item # rest) recent_changes =
     (if item_field item \<in> set ignored_fields then scan_items rest recent_changes
      else scan_items rest (recent_changes @ [change_desc item]))"

text \<open>The loop over the history entries of one issue.\<close>

fun scan_histories ::
  "env \<Rightarrow> datetime \<Rightarrow> datetime \<Rightarrow> history list \<Rightarrow> string list \<Rightarrow> py_error + string list" where
  "scan_histories e start_date end_date [] recent_changes = Inr recent_changes"
| "scan_histories e start_date end_date (h # rest) recent_changes =
     (case fromisoformat e (replace_Z (created h)) of
        None \<Rightarrow> Inl (InvalidIsoformat (replace_Z (created h)))
      | Some history_date \<Rightarrow>
          if dt_le start_date (replace_tzinfo_None history_date)
             \<and> dt_le (replace_tzinfo_None history_date) end_date
          then scan_histories e start_date end_date rest
                 (scan_items (case items h of None \<Rightarrow> [] | Some its \<Rightarrow> its) recent_changes)
          else scan_histories e start_date end_date rest recent_changes)"

definition issue_changes ::
  "env \<Rightarrow> datetime \<Rightarrow> datetime \<Rightarrow> jira_issue \<Rightarrow> py_error + string list" where
  "issue_changes e start_date end_date issue =
     (case changelog issue of
        Some (Some hs) \<Rightarrow> scan_histories e start_date end_date hs []
      | _ \<Rightarrow> Inr [])"

text \<open>The loop over the issues of the answer; \<open>acc\<close> is the list \<open>issues\<close> it appends to.\<close>

fun collect_issues ::
  "env \<Rightarrow> datetime \<Rightarrow> datetime \<Rightarrow> jira_issue list \<Rightarrow> issue_record list
    \<Rightarrow> py_error + issue_record list" where
  "collect_issues e start_date end_date [] acc = Inr acc"
| "collect_issues e start_date end_date (issue # rest) acc =
     (case issue_changes e start_date end_date issue of
        Inl ex \<Rightarrow> Inl ex
      | Inr recent_changes \<Rightarrow>
          collect_issues e start_date end_date rest
            (acc @ [\<lparr>key = issue_key issue, summary = fields_summary issue,
                     status = fields_status_name issue, updated = fields_updated issue,
                     changes = recent_changes\<rparr>]))"

definition get_user_activities ::
  "env \<Rightarrow> JiraClient \<Rightarrow> string \<Rightarrow> datetime \<Rightarrow> datetime \<Rightarrow> world
    \<Rightarrow> (py_error + issue_record list) \<times> world" where
  "get_user_activities e self email start_date end_date w =
     (let req = search_request self email start_date end_date;
          w1 = w\<lparr>sent := sent w @ [req]\<rparr>
      in case jira_api e (length (sent w)) req of
           None \<Rightarrow> (Inl RequestException, w1)
         | Some response \<Rightarrow>
             if status_code response \<noteq> 200
             then (Inl (Exception (''Jira API error: ''
                     @ str_int (status_code response) @ '' - ''
                     @ response_text response)), w1)
             else
               (case json_body response of
                  None \<Rightarrow> (Inl JSONDecodeError, w1)
                | Some data \<Rightarrow>
                    (collect_issues e start_date end_date
                       (case issues data of None \<Rightarrow> [] | Some xs \<Rightarrow> xs) [], w1)))"

section \<open>main.py\<close>

record member =
  email :: string
  github_user :: string

record project =
  project_url :: string

record team =
  slug :: string
  team_name :: string
  members :: "member list"
  projects :: "project list"

text \<open>\<open>project["url"].split("/")[-1]\<close>: what follows the last slash.\<close>

definition repo_name_of :: "project \<Rightarrow> string" where
  "repo_name_of p = rev (takeWhile (\<lambda>c. c \<noteq> CHR ''/'') (rev (project_url p)))"

text \<open>The loop that warms the cache, one repository after the other.\<close>

fun preload :: "env \<Rightarrow> datetime \<Rightarrow> datetime \<Rightarrow> project list \<Rightarrow> world \<Rightarrow> world" where
  "preload e start_date end_date [] w = w"
| "preload e start_date end_date (p # ps) w =
     (case get_all_pull_requests e (repo_name_of p) start_date end_date w of
        (Inl ex, w') \<Rightarrow>
          preload e start_date end_date ps (print_line (CacheWarning (repo_name_of p) ex) w')
      | (Inr prs, w') \<Rightarrow> preload e start_date end_date ps w')"

text \<open>The inner loop of a member: every repository, \<open>all_prs\<close> extended by each result.\<close>

fun fetch_repos ::
  "env \<Rightarrow> string \<Rightarrow> datetime \<Rightarrow> datetime \<Rightarrow> project list \<Rightarrow> pr_record list \<Rightarrow> world
    \<Rightarrow> pr_record list \<times> world" where
  "fetch_repos e user start_date end_date [] all_prs w = (all_prs, w)"
| "fetch_repos e user start_date end_date (p # ps) all_prs w =
     (case get_user_pull_requests e (repo_name_of p) user start_date end_date w of
        (Inl ex, w') \<Rightarrow>
          fetch_repos e user start_date end_date ps all_prs
            (print_line (RepoError (repo_name_of p) ex) w')
      | (Inr prs, w') \<Rightarrow> fetch_repos e user start_date end_date ps (all_prs @ prs) w')"

text \<open>
  The turn of one member: the header, the issue-tracker part in its \<open>try\<close>, then the
  loop over the repositories and the pull requests it collected. The outer \<open>try\<close> of the
  pull request part has nothing left to catch: each fetch has its own, and showing a
  list of records raises nothing.
\<close>

definition process_member ::
  "env \<Rightarrow> JiraClient \<Rightarrow> datetime \<Rightarrow> datetime \<Rightarrow> project list \<Rightarrow> member \<Rightarrow> world \<Rightarrow> world" where
  "process_member e jira_client start_date end_date ps m w =
     (let w1 = print_line (MemberHeader (email m)) w;
          w2 = (case get_user_activities e jira_client (email m) start_date end_date w1 of
                  (Inr jira_issues, w') \<Rightarrow>
                    if jira_issues \<noteq> [] then print_line (JiraActivities jira_issues) w'
                    else print_line NoJiraActivities w'
                | (Inl ex, w') \<Rightarrow> print_line (JiraError ex) w')
      in case fetch_repos e (github_user m) start_date end_date ps [] w2 of
           (all_prs, w3) \<Rightarrow>
             if all_prs \<noteq> [] then print_line (PullRequests all_prs) w3
             else print_line NoPullRequests w3)"

fun per_member_phase ::
  "env \<Rightarrow> JiraClient \<Rightarrow> datetime \<Rightarrow> datetime \<Rightarrow> project list \<Rightarrow> member list \<Rightarrow> world
    \<Rightarrow> world" where
  "per_member_phase e jira_client start_date end_date ps [] w = w"
| "per_member_phase e jira_client start_date end_date ps (m # ms) w =
     per_member_phase e jira_client start_date end_date ps ms
       (process_member e jira_client start_date end_date ps m w)"

definition run_team ::
  "env \<Rightarrow> JiraClient \<Rightarrow> datetime \<Rightarrow> datetime \<Rightarrow> team \<Rightarrow> world \<Rightarrow> world" where
  "run_team e jira_client start_date end_date t w =
     per_member_phase e jira_client start_date end_date (projects t) (members t)
       (preload e start_date end_date (projects t) w)"

section \<open>What the properties speak of\<close>

text \<open>
  The timestamp the clients compare with the range: the \<open>updated_at\<close> of a pull request
  and the \<open>created\<close> of a history entry, parsed and made naive (\<open>None\<close> where
  \<open>fromisoformat\<close> raises).
\<close>

definition pr_date :: "env \<Rightarrow> pr_item \<Rightarrow> datetime option" where
  "pr_date e pr = map_option replace_tzinfo_None (fromisoformat e (replace_Z (pr_updated_at pr)))"

definition history_date :: "env \<Rightarrow> history \<Rightarrow> datetime option" where
  "history_date e h = map_option replace_tzinfo_None (fromisoformat e (replace_Z (created h)))"

definition pr_in_range :: "env \<Rightarrow> datetime \<Rightarrow> datetime \<Rightarrow> pr_item \<Rightarrow> bool" where
  "pr_in_range e start_date end_date pr =
     (case pr_date e pr of None \<Rightarrow> False | Some t \<Rightarrow> in_range start_date end_date t)"

definition history_in_range :: "env \<Rightarrow> datetime \<Rightarrow> datetime \<Rightarrow> history \<Rightarrow> bool" where
  "history_in_range e start_date end_date h =
     (case history_date e h of None \<Rightarrow> False | Some t \<Rightarrow> in_range start_date end_date t)"

definition items_of :: "history \<Rightarrow> history_item list" where
  "items_of h = (case items h of None \<Rightarrow> [] | Some its \<Rightarrow> its)"

definition histories_of :: "jira_issue \<Rightarrow> history list" where
  "histories_of issue = (case changelog issue of Some (Some hs) \<Rightarrow> hs | _ \<Rightarrow> [])"

definition issues_of :: "search_result \<Rightarrow> jira_issue list" where
  "issues_of data = (case issues data of None \<Rightarrow> [] | Some xs \<Rightarrow> xs)"

definition is_ignored :: "history_item \<Rightarrow> bool" where
  "is_ignored item = (item_field item = ''description'' \<or> item_field item = ''Bug Template'')"

text \<open>
  An issue of the answer and the record made of it: the four fields copied, and the
  changes those the scan of the issue's history gives.
\<close>

definition emitted :: "env \<Rightarrow> datetime \<Rightarrow> datetime \<Rightarrow> jira_issue \<Rightarrow> issue_record \<Rightarrow> bool" where
  "emitted e s d issue r =
     (key r = issue_key issue \<and> summary r = fields_summary issue
      \<and> status r = fields_status_name issue \<and> updated r = fields_updated issue
      \<and> issue_changes e s d issue = Inr (changes r))"

text \<open>
  The fetch of each repository in turn for one member, each in the state the loop has
  reached: the repository's name and what the fetch gave, a result or the exception.
\<close>

fun repo_outcomes ::
  "env \<Rightarrow> string \<Rightarrow> datetime \<Rightarrow> datetime \<Rightarrow> project list \<Rightarrow> world
    \<Rightarrow> (string \<times> (py_error + pr_record list)) list" where
  "repo_outcomes e user start_date end_date [] w = []"
| "repo_outcomes e user start_date end_date (p # ps) w =
     (case get_user_pull_requests e (repo_name_of p) user start_date end_date w of
        (Inl ex, w') \<Rightarrow>
          (repo_name_of p, Inl ex)
            # repo_outcomes e user start_date end_date ps
                (print_line (RepoError (repo_name_of p) ex) w')
      | (Inr prs, w') \<Rightarrow>
          (repo_name_of p, Inr prs) # repo_outcomes e user start_date end_date ps w')"

fun successes :: "(string \<times> (py_error + pr_record list)) list \<Rightarrow> pr_record list" where
  "successes [] = []"
| "successes ((n, Inr prs) # rest) = prs @ successes rest"
| "successes ((n, Inl ex) # rest) = successes rest"

fun failures :: "(string \<times> (py_error + pr_record list)) list \<Rightarrow> (string \<times> py_error) list" where
  "failures [] = []"
| "failures ((n, Inr prs) # rest) = failures rest"
| "failures ((n, Inl ex) # rest) = (n, ex) # failures rest"

fun repo_errors :: "line list \<Rightarrow> (string \<times> py_error) list" where
  "repo_errors [] = []"
| "repo_errors (RepoError n ex # rest) = (n, ex) # repo_errors rest"
| "repo_errors (l # rest) = repo_errors rest"

fun member_headers :: "line list \<Rightarrow> string list" where
  "member_headers [] = []"
| "member_headers (MemberHeader m # rest) = m # member_headers rest"
| "member_headers (l # rest) = member_headers rest"

text \<open>
  The line of the issue-tracker part for what the fetch gave and the line that ends a
  member's turn for the pull requests collected; the issue-tracker lines of a console;
  the state in which a member's repositories are fetched (after the header and the
  issue-tracker part); and the states in which the members' turns start.
\<close>

definition jira_line :: "py_error + issue_record list \<Rightarrow> line" where
  "jira_line r =
     (case r of
        Inl ex \<Rightarrow> JiraError ex
      | Inr jira_issues \<Rightarrow>
          if jira_issues \<noteq> [] then JiraActivities jira_issues else NoJiraActivities)"

definition pr_line :: "pr_record list \<Rightarrow> line" where
  "pr_line all_prs = (if all_prs \<noteq> [] then PullRequests all_prs else NoPullRequests)"

fun jira_lines :: "line list \<Rightarrow> line list" where
  "jira_lines [] = []"
| "jira_lines (JiraActivities xs # rest) = JiraActivities xs # jira_lines rest"
| "jira_lines (NoJiraActivities # rest) = NoJiraActivities # jira_lines rest"
| "jira_lines (JiraError ex # rest) = JiraError ex # jira_lines rest"
| "jira_lines (l # rest) = jira_lines rest"

definition jira_result ::
  "env \<Rightarrow> JiraClient \<Rightarrow> datetime \<Rightarrow> datetime \<Rightarrow> member \<Rightarrow> world
    \<Rightarrow> py_error + issue_record list" where
  "jira_result e jira_client start_date end_date m w =
     fst (get_user_activities e jira_client (email m) start_date end_date
            (print_line (MemberHeader (email m)) w))"

definition after_jira ::
  "env \<Rightarrow> JiraClient \<Rightarrow> datetime \<Rightarrow> datetime \<Rightarrow> member \<Rightarrow> world \<Rightarrow> world" where
  "after_jira e jira_client start_date end_date m w =
     print_line (jira_line (jira_result e jira_client start_date end_date m w))
       (snd (get_user_activities e jira_client (email m) start_date end_date
               (print_line (MemberHeader (email m)) w)))"

fun turn_starts ::
  "env \<Rightarrow> JiraClient \<Rightarrow> datetime \<Rightarrow> datetime \<Rightarrow> project list \<Rightarrow> member list \<Rightarrow> world
    \<Rightarrow> world list" where
  "turn_starts e jira_client start_date end_date ps [] w = []"
| "turn_starts e jira_client start_date end_date ps (m # ms) w =
     w # turn_starts e jira_client start_date end_date ps ms
           (process_member e jira_client start_date end_date ps m w)"

text \<open>The pull requests shown at the end of each member's turn.\<close>

fun pr_summaries :: "line list \<Rightarrow> pr_record list list" where
  "pr_summaries [] = []"
| "pr_summaries (PullRequests prs # rest) = prs # pr_summaries rest"
| "pr_summaries (NoPullRequests # rest) = [] # pr_summaries rest"
| "pr_summaries (l # rest) = pr_summaries rest"

section \<open>A run to try the properties on\<close>

definition datetime_of :: "nat \<Rightarrow> nat \<Rightarrow> nat \<Rightarrow> nat \<Rightarrow> nat \<Rightarrow> nat \<Rightarrow> datetime" where
  "datetime_of y mo d h mi s =
     \<lparr>year = y, month = mo, day = d, hour = h, minute = mi, second = s, microsecond = 0\<rparr>"

definition ex_start :: datetime where
  "ex_start = datetime_of 2024 3 4 9 0 0"

definition ex_end :: datetime where
  "ex_end = datetime_of 2024 3 5 9 0 0"

text \<open>The range of a second run on the same day, at half past five.\<close>

definition late_start :: datetime where
  "late_start = datetime_of 2024 3 4 17 30 0"

definition late_end :: datetime where
  "late_end = datetime_of 2024 3 5 17 30 0"

text \<open>
  \<open>datetime.fromisoformat\<close> on the timestamps of the run; the run has no other
  well-formed timestamp.
\<close>

definition iso_table :: "string \<Rightarrow> aware option" where
  "iso_table = map_of
     [(''2024-03-04T08:59:59+00:00'', (datetime_of 2024 3 4 8 59 59, Some 0)),
      (''2024-03-04T09:00:00+00:00'', (datetime_of 2024 3 4 9 0 0, Some 0)),
      (''2024-03-04T12:30:00+00:00'', (datetime_of 2024 3 4 12 30 0, Some 0)),
      (''2024-03-05T09:00:00+00:00'', (datetime_of 2024 3 5 9 0 0, Some 0)),
      (''2024-03-05T09:00:01+00:00'', (datetime_of 2024 3 5 9 0 1, Some 0))]"

definition pr_of :: "int \<Rightarrow> string \<Rightarrow> string \<Rightarrow> string \<Rightarrow> pr_item" where
  "pr_of n t upd login =
     \<lparr>pr_number = n, pr_title = t, pr_state = ''open'',
      pr_created_at = ''2024-03-01T10:00:00Z'', pr_updated_at = upd, pr_user_login = login\<rparr>"

definition pr1 :: pr_item where
  "pr1 = pr_of 1 ''Fix cache'' ''2024-03-04T09:00:00Z'' ''alice''"

definition pr2 :: pr_item where
  "pr2 = pr_of 2 ''Add retries'' ''2024-03-05T09:00:00Z'' ''bob''"

definition pr3 :: pr_item where
  "pr3 = pr_of 3 ''Too late'' ''2024-03-05T09:00:01Z'' ''alice''"

definition pr4 :: pr_item where
  "pr4 = pr_of 4 ''Too early'' ''2024-03-04T08:59:59Z'' ''bob''"

definition pr5 :: pr_item where
  "pr5 = pr_of 5 ''Docs'' ''2024-03-04T12:30:00Z'' ''alice''"

definition pr6 :: pr_item where
  "pr6 = pr_of 6 ''No date'' ''yesterday'' ''alice''"

definition repo_url :: "string \<Rightarrow> string" where
  "repo_url n = ''https://api.github.com/repos/aziontech/'' @ n @ ''/pulls''"

definition boom_answer :: "pr_item list response" where
  "boom_answer = \<lparr>status_code = 500, response_text = ''boom'', json_body = None\<rparr>"

definition html_answer :: "pr_item list response" where
  "html_answer = \<lparr>status_code = 200, response_text = ''<html>'', json_body = None\<rparr>"

definition ex_github :: "nat \<Rightarrow> request \<Rightarrow> pr_item list response option" where
  "ex_github n req =
     (if url req = repo_url ''A''
      then Some \<lparr>status_code = 200, response_text = ''[...]'', json_body = Some [pr1, pr2, pr3, pr4]\<rparr>
      else if url req = repo_url ''B''
      then Some boom_answer
      else if url req = repo_url ''C''
      then Some \<lparr>status_code = 200, response_text = ''[...]'', json_body = Some [pr5]\<rparr>
      else if url req = repo_url ''D''
      then Some html_answer
      else if url req = repo_url ''E''
      then Some \<lparr>status_code = 200, response_text = ''[...]'', json_body = Some [pr6]\<rparr>
      else None)"

definition item_status :: history_item where
  "item_status = \<lparr>item_field = ''status'', fromString = Some (JStr ''Open''),
                   toString = Some (JStr ''Done'')\<rparr>"

definition item_description :: history_item where
  "item_description = \<lparr>item_field = ''description'', fromString = Some (JStr ''old''),
                        toString = Some (JStr ''new'')\<rparr>"

definition item_template :: history_item where
  "item_template = \<lparr>item_field = ''Bug Template'', fromString = None, toString = Some JNull\<rparr>"

definition item_assignee :: history_item where
  "item_assignee = \<lparr>item_field = ''assignee'', fromString = Some JNull,
                     toString = Some (JStr ''alice'')\<rparr>"

definition issue1 :: jira_issue where
  "issue1 = \<lparr>issue_key = ''API-1'', fields_summary = ''Cache is stale'',
              fields_status_name = ''Done'', fields_updated = ''2024-03-04T12:30:00Z'',
              changelog = Some (Some
                [\<lparr>created = ''2024-03-04T12:30:00Z'',
                   items = Some [item_description, item_status, item_template]\<rparr>,
                 \<lparr>created = ''2024-03-04T08:59:59Z'', items = Some [item_assignee]\<rparr>])\<rparr>"

definition issue2 :: jira_issue where
  "issue2 = \<lparr>issue_key = ''API-2'', fields_summary = ''Write docs'',
              fields_status_name = ''Open'', fields_updated = ''2024-03-04T12:30:00Z'',
              changelog = Some (Some
                [\<lparr>created = ''2024-03-05T09:00:01Z'', items = Some [item_status]\<rparr>,
                 \<lparr>created = ''2024-03-04T09:00:00Z'',
                   items = Some [item_description, item_template]\<rparr>])\<rparr>"

definition issue3 :: jira_issue where
  "issue3 = \<lparr>issue_key = ''API-3'', fields_summary = ''Broken clock'',
              fields_status_name = ''Open'', fields_updated = ''2024-03-04T12:30:00Z'',
              changelog = Some (Some [\<lparr>created = ''yesterday'', items = None\<rparr>])\<rparr>"

definition ex_jira_client :: JiraClient where
  "ex_jira_client = \<lparr>jira_base_url = ''https://example.atlassian.net'',
                      username = ''bot'', api_token = ''secret''\<rparr>"

definition forbidden_answer :: "search_result response" where
  "forbidden_answer = \<lparr>status_code = 403, response_text = ''Forbidden'', json_body = None\<rparr>"

definition carol_answer :: "search_result response" where
  "carol_answer = \<lparr>status_code = 200, response_text = ''{...}'',
                    json_body = Some \<lparr>issues = Some [issue3]\<rparr>\<rparr>"

definition ex_jira :: "nat \<Rightarrow> request \<Rightarrow> search_result response option" where
  "ex_jira n req =
     (if map_of (params req) ''jql'' = Some (jql_query ''alice@example.com'' ex_start ex_end)
      then Some \<lparr>status_code = 200, response_text = ''{...}'',
                 json_body = Some \<lparr>issues = Some [issue1, issue2]\<rparr>\<rparr>
      else if map_of (params req) ''jql'' = Some (jql_query ''bob@example.com'' ex_start ex_end)
      then Some forbidden_answer
      else if map_of (params req) ''jql'' = Some (jql_query ''carol@example.com'' ex_start ex_end)
      then Some carol_answer
      else None)"

definition ex_env :: env where
  "ex_env = \<lparr>fromisoformat = iso_table, github_api = ex_github, jira_api = ex_jira,
              disk_writable = True\<rparr>"

definition ex_client :: GitHubClient where
  "ex_client = \<lparr>token = ''t0ken'', base_url = ''https://api.github.com'',
                 cache_file = ''.github_cache.json'', cache = Map.empty\<rparr>"

definition ex_world :: world where
  "ex_world = \<lparr>gh = ex_client, disk = Missing, sent = [], console = []\<rparr>"

text \<open>
  The same client after an earlier run of the day left its result for repository \<open>A\<close> in
  the cache file.
\<close>

definition warm_file :: file_state where
  "warm_file = Stored [get_cache_key ''A'' ex_start ex_end \<mapsto> [to_record ''A'' pr1]]"

definition warm_world :: world where
  "warm_world =
     \<lparr>gh = ex_client\<lparr>cache := (case load_cache warm_file of Dict m \<Rightarrow> m
                                 | NotDict v \<Rightarrow> Map.empty)\<rparr>,
      disk = warm_file, sent = [], console = []\<rparr>"

definition ex_projects :: "project list" where
  "ex_projects = [\<lparr>project_url = ''https://github.com/aziontech/A''\<rparr>,
                  \<lparr>project_url = ''https://github.com/aziontech/B''\<rparr>,
                  \<lparr>project_url = ''https://github.com/aziontech/C''\<rparr>]"

definition ex_members :: "member list" where
  "ex_members = [\<lparr>email = ''alice@example.com'', github_user = ''alice''\<rparr>,
                 \<lparr>email = ''bob@example.com'', github_user = ''bob''\<rparr>]"

definition alice_records :: "issue_record list" where
  "alice_records =
     [\<lparr>key = ''API-1'', summary = ''Cache is stale'', status = ''Done'',
       updated = ''2024-03-04T12:30:00Z'', changes = [change_desc item_status]\<rparr>,
      \<lparr>key = ''API-2'', summary = ''Write docs'', status = ''Open'',
       updated = ''2024-03-04T12:30:00Z'', changes = []\<rparr>]"

section \<open>The loops, as filters\<close>

lemma lex_le_refl: "lex_le xs xs"
  by (induction xs) auto

lemma dt_le_refl: "dt_le t t"
  by (simp add: dt_le_def lex_le_refl)

lemma pr_in_range_Some:
  "fromisoformat e (replace_Z (pr_updated_at pr)) = Some p \<Longrightarrow>
     pr_in_range e s d pr
       = (dt_le s (replace_tzinfo_None p) \<and> dt_le (replace_tzinfo_None p) d)"
  by (simp add: pr_in_range_def pr_date_def in_range_def)

lemma history_in_range_Some:
  "fromisoformat e (replace_Z (created h)) = Some p \<Longrightarrow>
     history_in_range e s d h
       = (dt_le s (replace_tzinfo_None p) \<and> dt_le (replace_tzinfo_None p) d)"
  by (simp add: history_in_range_def history_date_def in_range_def)

lemma collect_prs_step:
  "fromisoformat e (replace_Z (pr_updated_at pr)) = Some p \<Longrightarrow>
     collect_prs e n s d (pr # rest) acc
       = (if pr_in_range e s d pr then collect_prs e n s d rest (acc @ [to_record n pr])
          else collect_prs e n s d rest acc)"
  by (simp add: pr_in_range_Some Let_def)

lemma scan_histories_step:
  "fromisoformat e (replace_Z (created h)) = Some p \<Longrightarrow>
     scan_histories e s d (h # rest) acc
       = (if history_in_range e s d h
          then scan_histories e s d rest (scan_items (items_of h) acc)
          else scan_histories e s d rest acc)"
  by (simp add: history_in_range_Some items_of_def)

lemma collect_prs_Inr:
  "collect_prs e n s d xs acc = Inr recs \<Longrightarrow>
     recs = acc @ map (to_record n) (filter (pr_in_range e s d) xs)
     \<and> (\<forall>pr\<in>set xs. pr_date e pr \<noteq> None)"
proof (induction xs arbitrary: acc)
  case Nil
  then show ?case by simp
next
  case (Cons pr rest)
  show ?case
  proof (cases "fromisoformat e (replace_Z (pr_updated_at pr))")
    case None
    with Cons.prems show ?thesis by simp
  next
    case (Some p)
    then have date: "pr_date e pr \<noteq> None"
      by (simp add: pr_date_def)
    show ?thesis
    proof (cases "pr_in_range e s d pr")
      case True
      with Cons.prems
      have "collect_prs e n s d rest (acc @ [to_record n pr]) = Inr recs"
        by (simp only: collect_prs_step [OF Some] if_True)
      from Cons.IH [OF this] True date show ?thesis
        by simp
    next
      case False
      with Cons.prems
      have "collect_prs e n s d rest acc = Inr recs"
        by (simp only: collect_prs_step [OF Some] if_False)
      from Cons.IH [OF this] False date show ?thesis
        by simp
    qed
  qed
qed

lemma scan_items_acc: "scan_items its acc = acc @ scan_items its []"
proof (induction its arbitrary: acc)
  case Nil
  then show ?case by simp
next
  case (Cons it rest)
  have "scan_items rest (acc @ [change_desc it]) = (acc @ [change_desc it]) @ scan_items rest []"
    by (rule Cons.IH)
  moreover have "scan_items rest [change_desc it] = [change_desc it] @ scan_items rest []"
    by (rule Cons.IH)
  ultimately show ?case using Cons.IH [of acc] by simp
qed

lemma scan_items_eq:
  "scan_items its [] = map change_desc (filter (\<lambda>it. \<not> is_ignored it) its)"
proof (induction its)
  case Nil
  then show ?case by simp
next
  case (Cons it rest)
  then show ?case
    using scan_items_acc [of rest "[change_desc it]"]
    by (simp add: is_ignored_def ignored_fields_def)
qed

lemma scan_histories_Inr:
  "scan_histories e s d hs acc = Inr rc \<Longrightarrow>
     rc = acc @ concat (map (\<lambda>h. scan_items (items_of h) []) (filter (history_in_range e s d) hs))
     \<and> (\<forall>h\<in>set hs. history_date e h \<noteq> None)"
proof (induction hs arbitrary: acc)
  case Nil
  then show ?case by simp
next
  case (Cons h rest)
  show ?case
  proof (cases "fromisoformat e (replace_Z (created h))")
    case None
    with Cons.prems show ?thesis by simp
  next
    case (Some p)
    then have date: "history_date e h \<noteq> None"
      by (simp add: history_date_def)
    show ?thesis
    proof (cases "history_in_range e s d h")
      case True
      with Cons.prems
      have "scan_histories e s d rest (scan_items (items_of h) acc) = Inr rc"
        by (simp only: scan_histories_step [OF Some] if_True)
      from Cons.IH [OF this] True date show ?thesis
        using scan_items_acc [of "items_of h" acc]
        by simp
    next
      case False
      with Cons.prems
      have "scan_histories e s d rest acc = Inr rc"
        by (simp only: scan_histories_step [OF Some] if_False)
      from Cons.IH [OF this] False date show ?thesis
        by simp
    qed
  qed
qed

lemma issue_changes_Inr:
  "issue_changes e s d issue = Inr rc \<Longrightarrow>
     rc = concat (map (\<lambda>h. scan_items (items_of h) [])
            (filter (history_in_range e s d) (histories_of issue)))
     \<and> (\<forall>h\<in>set (histories_of issue). history_date e h \<noteq> None)"
  using scan_histories_Inr [of e s d _ "[]" rc]
  by (auto simp: issue_changes_def histories_of_def split: option.splits)

lemma collect_issues_Inr:
  "collect_issues e s d xs acc = Inr recs \<Longrightarrow>
     \<exists>new. recs = acc @ new \<and> list_all2 (emitted e s d) xs new"
proof (induction xs arbitrary: acc)
  case Nil
  then show ?case by simp
next
  case (Cons issue rest)
  then obtain rc where rc: "issue_changes e s d issue = Inr rc"
    by (cases "issue_changes e s d issue") auto
  let ?r = "\<lparr>key = issue_key issue, summary = fields_summary issue,
             status = fields_status_name issue, updated = fields_updated issue,
             changes = rc\<rparr>"
  from Cons.prems rc have "collect_issues e s d rest (acc @ [?r]) = Inr recs"
    by simp
  from Cons.IH [OF this] obtain new where
    new: "recs = (acc @ [?r]) @ new" "list_all2 (emitted e s d) rest new"
    by blast
  have "emitted e s d issue ?r"
    by (simp add: emitted_def rc)
  with new have "recs = acc @ (?r # new) \<and> list_all2 (emitted e s d) (issue # rest) (?r # new)"
    by simp
  then show ?case by blast
qed

lemma get_user_activities_Inr:
  assumes "get_user_activities e jc em s d w = (Inr recs, w')"
  shows "\<exists>r data. jira_api e (length (sent w)) (search_request jc em s d) = Some r
           \<and> status_code r = 200 \<and> json_body r = Some data
           \<and> list_all2 (emitted e s d) (issues_of data) recs
           \<and> w' = w\<lparr>sent := sent w @ [search_request jc em s d]\<rparr>"
proof -
  from assms obtain r where r: "jira_api e (length (sent w)) (search_request jc em s d) = Some r"
    by (cases "jira_api e (length (sent w)) (search_request jc em s d)")
       (auto simp: get_user_activities_def Let_def)
  from assms r have st: "status_code r = 200"
    by (auto simp: get_user_activities_def Let_def split: if_splits)
  from assms r st obtain data where data: "json_body r = Some data"
    by (cases "json_body r") (auto simp: get_user_activities_def Let_def)
  from assms r st data
  have c: "collect_issues e s d (issues_of data) [] = Inr recs"
    and w': "w' = w\<lparr>sent := sent w @ [search_request jc em s d]\<rparr>"
    by (auto simp: get_user_activities_def Let_def issues_of_def)
  from collect_issues_Inr [OF c] have "list_all2 (emitted e s d) (issues_of data) recs"
    by simp
  with r st data w' show ?thesis by blast
qed

section \<open>The state a call leaves\<close>

lemma print_line_sel [simp]:
  "gh (print_line l w) = gh w" "disk (print_line l w) = disk w"
  "sent (print_line l w) = sent w" "console (print_line l w) = console w @ [l]"
  by (simp_all add: print_line_def)

lemma cache_put_sel [simp]:
  "cache (gh (cache_put k v w)) = (cache (gh w))(k := Some v)"
  "sent (cache_put k v w) = sent w" "console (cache_put k v w) = console w"
  "disk (cache_put k v w) = disk w"
  "token (gh (cache_put k v w)) = token (gh w)"
  "base_url (gh (cache_put k v w)) = base_url (gh w)"
  by (simp_all add: cache_put_def)

lemma save_cache_sel [simp]:
  "gh (save_cache e w) = gh w" "sent (save_cache e w) = sent w"
  by (simp_all add: save_cache_def)

lemma get_all_hit:
  "cache (gh w) (get_cache_key n s d) = Some prs \<Longrightarrow>
     get_all_pull_requests e n s d w = (Inr prs, w)"
  by (simp add: get_all_pull_requests_def)

lemma get_all_miss:
  assumes "cache (gh w) (get_cache_key n s d) = None"
  shows "get_all_pull_requests e n s d w =
     (case github_api e (length (sent w)) (pulls_request (gh w) n) of
        None \<Rightarrow> (Inl RequestException, w\<lparr>sent := sent w @ [pulls_request (gh w) n]\<rparr>)
      | Some r \<Rightarrow>
          if status_code r \<noteq> 200
          then (Inl (Exception (''GitHub API error: '' @ str_int (status_code r) @ '' - ''
                  @ response_text r)), w\<lparr>sent := sent w @ [pulls_request (gh w) n]\<rparr>)
          else
            (case json_body r of
               None \<Rightarrow> (Inl JSONDecodeError, w\<lparr>sent := sent w @ [pulls_request (gh w) n]\<rparr>)
             | Some prs_data \<Rightarrow>
                 (case collect_prs e n s d prs_data [] of
                    Inl ex \<Rightarrow> (Inl ex, w\<lparr>sent := sent w @ [pulls_request (gh w) n]\<rparr>)
                  | Inr all_prs \<Rightarrow>
                      (Inr all_prs,
                       save_cache e (cache_put (get_cache_key n s d) all_prs
                         (w\<lparr>sent := sent w @ [pulls_request (gh w) n]\<rparr>))))))"
  using assms by (simp add: get_all_pull_requests_def Let_def)

lemma get_all_miss_Inr:
  assumes miss: "cache (gh w) (get_cache_key n s d) = None"
    and res: "get_all_pull_requests e n s d w = (Inr recs, w')"
  shows "\<exists>r prs_data.
           github_api e (length (sent w)) (pulls_request (gh w) n) = Some r
           \<and> status_code r = 200 \<and> json_body r = Some prs_data
           \<and> collect_prs e n s d prs_data [] = Inr recs
           \<and> w' = save_cache e (cache_put (get_cache_key n s d) recs
                     (w\<lparr>sent := sent w @ [pulls_request (gh w) n]\<rparr>))"
  using res unfolding get_all_miss [OF miss]
  by (auto split: option.splits if_splits sum.splits)

lemma get_all_sent:
  "sent (snd (get_all_pull_requests e n s d w)) =
     (if cache (gh w) (get_cache_key n s d) = None
      then sent w @ [pulls_request (gh w) n] else sent w)"
proof (cases "cache (gh w) (get_cache_key n s d)")
  case None
  then show ?thesis
    unfolding get_all_miss [OF None]
    by (simp split: option.splits sum.splits)
next
  case (Some prs)
  then show ?thesis by (simp add: get_all_hit)
qed

lemma get_all_Inr_cached:
  assumes "get_all_pull_requests e n s d w = (Inr recs, w')"
  shows "cache (gh w') (get_cache_key n s d) = Some recs"
proof (cases "cache (gh w) (get_cache_key n s d)")
  case None
  from get_all_miss_Inr [OF None assms] show ?thesis by auto
next
  case (Some prs)
  with assms show ?thesis by (simp add: get_all_hit)
qed

lemma get_all_Inl_cache:
  assumes "get_all_pull_requests e n s d w = (Inl ex, w')"
  shows "gh w' = gh w"
proof (cases "cache (gh w) (get_cache_key n s d)")
  case None
  from assms show ?thesis
    unfolding get_all_miss [OF None]
    by (auto split: option.splits if_splits sum.splits)
next
  case (Some prs)
  with assms show ?thesis by (simp add: get_all_hit)
qed

lemma get_user_activities_fst_Inr:
  assumes "fst (get_user_activities e jc em s d w) = Inr recs"
  shows "\<exists>r data. jira_api e (length (sent w)) (search_request jc em s d) = Some r
           \<and> status_code r = 200 \<and> json_body r = Some data
           \<and> list_all2 (emitted e s d) (issues_of data) recs"
proof -
  obtain w' where "get_user_activities e jc em s d w = (Inr recs, w')"
    using assms by (cases "get_user_activities e jc em s d w") simp
  from get_user_activities_Inr [OF this] show ?thesis by blast
qed

lemma get_all_fst_miss_Inr:
  assumes miss: "cache (gh w) (get_cache_key n s d) = None"
    and res: "fst (get_all_pull_requests e n s d w) = Inr recs"
  shows "\<exists>r prs_data.
           github_api e (length (sent w)) (pulls_request (gh w) n) = Some r
           \<and> status_code r = 200 \<and> json_body r = Some prs_data
           \<and> collect_prs e n s d prs_data [] = Inr recs"
proof -
  obtain w' where "get_all_pull_requests e n s d w = (Inr recs, w')"
    using res by (cases "get_all_pull_requests e n s d w") simp
  from get_all_miss_Inr [OF miss this] show ?thesis by blast
qed

section \<open>What a fetch keeps\<close>

lemma pr_in_range_to_record:
  "to_record n pr' = to_record n pr \<Longrightarrow> pr_in_range e s d pr' = pr_in_range e s d pr"
  by (simp add: to_record_def pr_in_range_def pr_date_def)

lemma retained_iff:
  assumes recs: "recs = map (to_record n) (filter (pr_in_range e s d) prs_data)"
    and pr: "pr \<in> set prs_data" and t: "pr_date e pr = Some t"
  shows "to_record n pr \<in> set recs \<longleftrightarrow> dt_le s t \<and> dt_le t d"
proof
  assume "to_record n pr \<in> set recs"
  with recs obtain pr' where "pr_in_range e s d pr'" "to_record n pr' = to_record n pr"
    by auto
  then have "pr_in_range e s d pr"
    using pr_in_range_to_record [of n pr' pr e s d] by blast
  with t show "dt_le s t \<and> dt_le t d"
    by (simp add: pr_in_range_def in_range_def)
next
  assume "dt_le s t \<and> dt_le t d"
  with t have "pr_in_range e s d pr"
    by (simp add: pr_in_range_def in_range_def)
  with pr recs show "to_record n pr \<in> set recs"
    by simp
qed

lemma github_range_filter:
  assumes miss: "cache (gh w) (get_cache_key n s d) = None"
    and res: "fst (get_all_pull_requests e n s d w) = Inr recs"
  shows "\<exists>r prs_data. github_api e (length (sent w)) (pulls_request (gh w) n) = Some r
            \<and> json_body r = Some prs_data
            \<and> recs = map (to_record n) (filter (pr_in_range e s d) prs_data)
            \<and> (\<forall>pr\<in>set prs_data. \<exists>t. pr_date e pr = Some t
                  \<and> (to_record n pr \<in> set recs \<longleftrightarrow> dt_le s t \<and> dt_le t d))"
proof -
  from get_all_fst_miss_Inr [OF miss res] obtain r prs_data where
    r: "github_api e (length (sent w)) (pulls_request (gh w) n) = Some r"
      "json_body r = Some prs_data"
    and c: "collect_prs e n s d prs_data [] = Inr recs"
    by blast
  from collect_prs_Inr [OF c]
  have recs: "recs = map (to_record n) (filter (pr_in_range e s d) prs_data)"
    and parsed: "\<forall>pr\<in>set prs_data. pr_date e pr \<noteq> None"
    by simp_all
  have "\<exists>t. pr_date e pr = Some t
          \<and> (to_record n pr \<in> set recs \<longleftrightarrow> dt_le s t \<and> dt_le t d)"
    if pr: "pr \<in> set prs_data" for pr
  proof -
    from parsed pr obtain t where t: "pr_date e pr = Some t" by auto
    from retained_iff [OF recs pr t] t show ?thesis by blast
  qed
  with r recs show ?thesis by blast
qed

lemma jira_range_filter:
  assumes "fst (get_user_activities e jc em s d w) = Inr irecs"
  shows "\<exists>r data. jira_api e (length (sent w)) (search_request jc em s d) = Some r
            \<and> json_body r = Some data \<and> length irecs = length (issues_of data)
            \<and> (\<forall>i<length irecs.
                 changes (irecs ! i)
                   = concat (map (\<lambda>h. scan_items (items_of h) [])
                       (filter (history_in_range e s d) (histories_of (issues_of data ! i))))
                 \<and> (\<forall>h\<in>set (histories_of (issues_of data ! i)).
                       \<exists>t. history_date e h = Some t
                         \<and> (history_in_range e s d h \<longleftrightarrow> dt_le s t \<and> dt_le t d)))"
proof -
  from get_user_activities_fst_Inr [OF assms] obtain r data where
    r: "jira_api e (length (sent w)) (search_request jc em s d) = Some r"
      "json_body r = Some data"
    and all2: "list_all2 (emitted e s d) (issues_of data) irecs"
    by blast
  from all2 have len: "length irecs = length (issues_of data)"
    by (simp add: list_all2_lengthD)
  have "changes (irecs ! i)
          = concat (map (\<lambda>h. scan_items (items_of h) [])
              (filter (history_in_range e s d) (histories_of (issues_of data ! i))))
        \<and> (\<forall>h\<in>set (histories_of (issues_of data ! i)).
              \<exists>t. history_date e h = Some t
                \<and> (history_in_range e s d h \<longleftrightarrow> dt_le s t \<and> dt_le t d))"
    if i: "i < length irecs" for i
  proof -
    from all2 i len have "emitted e s d (issues_of data ! i) (irecs ! i)"
      by (simp add: list_all2_nthD2)
    then have "issue_changes e s d (issues_of data ! i) = Inr (changes (irecs ! i))"
      by (simp add: emitted_def)
    from issue_changes_Inr [OF this] show ?thesis
      by (auto simp: history_in_range_def in_range_def)
  qed
  with r len show ?thesis by blast
qed

lemma same_key_hit:
  assumes key: "get_cache_key n s' d' = get_cache_key n s d"
    and res: "fst (get_all_pull_requests e n s d w) = Inr recs"
  shows "get_all_pull_requests e n s' d' (snd (get_all_pull_requests e n s d w))
           = (Inr recs, snd (get_all_pull_requests e n s d w))"
proof -
  obtain w1 where run: "get_all_pull_requests e n s d w = (Inr recs, w1)"
    using res by (cases "get_all_pull_requests e n s d w") simp
  have "cache (gh w1) (get_cache_key n s d) = Some recs"
    by (rule get_all_Inr_cached [OF run])
  with key have "cache (gh w1) (get_cache_key n s' d') = Some recs"
    by simp
  then have "get_all_pull_requests e n s' d' w1 = (Inr recs, w1)"
    by (rule get_all_hit)
  with run show ?thesis by simp
qed

section \<open>The run, evaluated\<close>

lemmas ex_defs =
  ex_env_def ex_world_def ex_client_def ex_github_def repo_url_def pulls_request_def
  boom_answer_def html_answer_def
  pr1_def pr2_def pr3_def pr4_def pr5_def pr6_def pr_of_def iso_table_def replace_Z_def
  datetime_of_def dt_le_def dt_fields_def ex_start_def ex_end_def replace_tzinfo_None_def
  to_record_def

lemmas jira_defs =
  ex_jira_def ex_jira_client_def search_request_def jql_query_def dquote_def
  forbidden_answer_def carol_answer_def
  strftime_Y_m_d_def zfill_def str_nat.simps digit_def issue1_def issue2_def issue3_def
  item_status_def item_description_def item_template_def item_assignee_def
  issue_changes_def ignored_fields_def alice_records_def

lemma run_A:
  "fst (get_all_pull_requests ex_env ''A'' ex_start ex_end ex_world)
     = Inr [to_record ''A'' pr1, to_record ''A'' pr2]"
  by (simp add: get_all_pull_requests_def Let_def ex_defs)

lemma run_B:
  "fst (get_all_pull_requests ex_env ''B'' ex_start ex_end ex_world)
     = Inl (Exception ''GitHub API error: 500 - boom'')"
  by (simp add: get_all_pull_requests_def Let_def ex_defs str_int_def str_nat.simps digit_def)

lemma run_alice:
  "fst (get_user_activities ex_env ex_jira_client ''alice@example.com'' ex_start ex_end ex_world)
     = Inr alice_records"
  by (simp add: get_user_activities_def Let_def ex_defs jira_defs)

lemma miss_A: "cache (gh ex_world) (get_cache_key ''A'' ex_start ex_end) = None"
  by (simp add: ex_world_def ex_client_def)

lemma warm_A:
  "get_all_pull_requests ex_env ''A'' ex_start ex_end warm_world
     = (Inr [to_record ''A'' pr1], warm_world)"
  by (rule get_all_hit) (simp add: warm_world_def warm_file_def load_cache_def)

lemma ex_range: "dt_le ex_start ex_end"
  by (simp add: ex_defs)

lemma late_key:
  "get_cache_key ''A'' late_start late_end = get_cache_key ''A'' ex_start ex_end"
  by (simp add: get_cache_key_def strftime_Ymd_def late_start_def late_end_def ex_start_def
        ex_end_def datetime_of_def)

lemma warm_hit:
  "cache (gh warm_world) (get_cache_key ''A'' ex_start ex_end) = Some [to_record ''A'' pr1]"
  by (simp add: warm_world_def warm_file_def load_cache_def)

lemma concat_scan_items:
  "concat (map (\<lambda>h. scan_items (items_of h) []) hs)
     = map change_desc (filter (\<lambda>it. \<not> is_ignored it) (concat (map items_of hs)))"
  by (induction hs) (simp_all add: scan_items_eq)

lemma jira_changes_items:
  assumes "fst (get_user_activities e jc em s d w) = Inr recs"
  shows "\<exists>r data. jira_api e (length (sent w)) (search_request jc em s d) = Some r
           \<and> json_body r = Some data \<and> length recs = length (issues_of data)
           \<and> (\<forall>i<length recs.
                 changes (recs ! i)
                   = map change_desc (filter (\<lambda>it. \<not> is_ignored it)
                       (concat (map items_of
                          (filter (history_in_range e s d)
                             (histories_of (issues_of data ! i)))))))"
proof -
  from jira_range_filter [OF assms] obtain r data where
    r: "jira_api e (length (sent w)) (search_request jc em s d) = Some r"
      "json_body r = Some data" "length recs = length (issues_of data)"
    and ch: "\<forall>i<length recs. changes (recs ! i)
               = concat (map (\<lambda>h. scan_items (items_of h) [])
                   (filter (history_in_range e s d) (histories_of (issues_of data ! i))))"
    by blast
  from ch have "\<forall>i<length recs. changes (recs ! i)
      = map change_desc (filter (\<lambda>it. \<not> is_ignored it)
          (concat (map items_of
             (filter (history_in_range e s d) (histories_of (issues_of data ! i))))))"
    by (simp only: concat_scan_items)
  with r show ?thesis by blast
qed

section \<open>When a fetch raises\<close>

lemma collect_prs_Inl:
  "collect_prs e n s d xs acc = Inl ex \<Longrightarrow> \<exists>t. ex = InvalidIsoformat t"
proof (induction xs arbitrary: acc)
  case Nil
  then show ?case by simp
next
  case (Cons pr rest)
  show ?case
  proof (cases "fromisoformat e (replace_Z (pr_updated_at pr))")
    case None
    with Cons.prems show ?thesis by auto
  next
    case (Some p)
    from Cons.prems Cons.IH show ?thesis
      unfolding collect_prs_step [OF Some] by (auto split: if_splits)
  qed
qed

lemma scan_histories_Inl:
  "scan_histories e s d hs acc = Inl ex \<Longrightarrow> \<exists>t. ex = InvalidIsoformat t"
proof (induction hs arbitrary: acc)
  case Nil
  then show ?case by simp
next
  case (Cons h rest)
  show ?case
  proof (cases "fromisoformat e (replace_Z (created h))")
    case None
    with Cons.prems show ?thesis by auto
  next
    case (Some p)
    from Cons.prems Cons.IH show ?thesis
      unfolding scan_histories_step [OF Some] by (auto split: if_splits)
  qed
qed

lemma issue_changes_Inl:
  "issue_changes e s d issue = Inl ex \<Longrightarrow> \<exists>t. ex = InvalidIsoformat t"
  using scan_histories_Inl [of e s d _ "[]" ex]
  by (auto simp: issue_changes_def split: option.splits)

lemma collect_issues_Inl:
  "collect_issues e s d xs acc = Inl ex \<Longrightarrow> \<exists>t. ex = InvalidIsoformat t"
proof (induction xs arbitrary: acc)
  case Nil
  then show ?case by simp
next
  case (Cons issue rest)
  show ?case
  proof (cases "issue_changes e s d issue")
    case (Inl ex')
    with Cons.prems issue_changes_Inl [OF Inl] show ?thesis by simp
  next
    case (Inr rc)
    with Cons.prems Cons.IH show ?thesis by simp
  qed
qed

lemma get_user_activities_fst:
  "fst (get_user_activities e jc em s d w) =
     (case jira_api e (length (sent w)) (search_request jc em s d) of
        None \<Rightarrow> Inl RequestException
      | Some r \<Rightarrow>
          if status_code r \<noteq> 200
          then Inl (Exception (''Jira API error: '' @ str_int (status_code r) @ '' - ''
                 @ response_text r))
          else (case json_body r of
                  None \<Rightarrow> Inl JSONDecodeError
                | Some data \<Rightarrow> collect_issues e s d (issues_of data) []))"
  by (simp add: get_user_activities_def Let_def issues_of_def split: option.splits)

lemma get_all_fst_miss:
  assumes "cache (gh w) (get_cache_key n s d) = None"
  shows "fst (get_all_pull_requests e n s d w) =
     (case github_api e (length (sent w)) (pulls_request (gh w) n) of
        None \<Rightarrow> Inl RequestException
      | Some r \<Rightarrow>
          if status_code r \<noteq> 200
          then Inl (Exception (''GitHub API error: '' @ str_int (status_code r) @ '' - ''
                 @ response_text r))
          else (case json_body r of
                  None \<Rightarrow> Inl JSONDecodeError
                | Some prs_data \<Rightarrow> collect_prs e n s d prs_data []))"
  unfolding get_all_miss [OF assms]
  by (simp split: option.splits sum.splits)

lemma github_api_error:
  assumes "fst (get_all_pull_requests e n s d w) = Inl (Exception msg)"
  shows "\<exists>r. github_api e (length (sent w)) (pulls_request (gh w) n) = Some r
           \<and> status_code r \<noteq> 200
           \<and> msg = ''GitHub API error: '' @ str_int (status_code r) @ '' - '' @ response_text r"
proof (cases "cache (gh w) (get_cache_key n s d)")
  case (Some prs)
  with assms show ?thesis by (simp add: get_all_hit)
next
  case None
  from assms show ?thesis
    unfolding get_all_fst_miss [OF None]
    by (auto split: option.splits if_splits dest: collect_prs_Inl)
qed

lemma jira_api_error:
  assumes "fst (get_user_activities e jc em s d w) = Inl (Exception msg)"
  shows "\<exists>r. jira_api e (length (sent w)) (search_request jc em s d) = Some r
           \<and> status_code r \<noteq> 200
           \<and> msg = ''Jira API error: '' @ str_int (status_code r) @ '' - '' @ response_text r"
  using assms unfolding get_user_activities_fst
  by (auto split: option.splits if_splits dest: collect_issues_Inl)

lemma run_bob:
  "fst (get_user_activities ex_env ex_jira_client ''bob@example.com'' ex_start ex_end ex_world)
     = Inl (Exception ''Jira API error: 403 - Forbidden'')"
  by (simp add: get_user_activities_def Let_def ex_defs jira_defs str_int_def)

lemma run_carol:
  "fst (get_user_activities ex_env ex_jira_client ''carol@example.com'' ex_start ex_end
     ex_world) = Inl (InvalidIsoformat ''yesterday'')"
  by (simp add: get_user_activities_def Let_def ex_defs jira_defs)

lemma run_D:
  "fst (get_all_pull_requests ex_env ''D'' ex_start ex_end ex_world) = Inl JSONDecodeError"
  by (simp add: get_all_pull_requests_def Let_def ex_defs)

lemma answer_B:
  "github_api ex_env (length (sent ex_world)) (pulls_request (gh ex_world) ''B'')
     = Some boom_answer"
  by (simp add: ex_env_def ex_world_def ex_client_def ex_github_def repo_url_def
        pulls_request_def)

lemma answer_D:
  "github_api ex_env (length (sent ex_world)) (pulls_request (gh ex_world) ''D'')
     = Some html_answer"
  by (simp add: ex_env_def ex_world_def ex_client_def ex_github_def repo_url_def
        pulls_request_def)

lemma answer_bob:
  "jira_api ex_env (length (sent ex_world))
      (search_request ex_jira_client ''bob@example.com'' ex_start ex_end)
     = Some forbidden_answer"
  by (simp add: ex_env_def ex_jira_def ex_jira_client_def search_request_def jql_query_def
        dquote_def)

lemma answer_carol:
  "jira_api ex_env (length (sent ex_world))
      (search_request ex_jira_client ''carol@example.com'' ex_start ex_end)
     = Some carol_answer"
  by (simp add: ex_env_def ex_jira_def ex_jira_client_def search_request_def jql_query_def
        dquote_def)

lemma miss_any: "cache (gh ex_world) k = None"
  by (simp add: ex_world_def ex_client_def)

lemma unusable_file_empty_cache:
  assumes "f = Missing \<or> f = Corrupt \<or> f = Unreadable" and "t \<noteq> []"
  shows "load_cache f = Dict Map.empty
     \<and> (\<exists>obj. GitHubClient_init (Some t) f = Inr obj \<and> cache obj = Dict Map.empty)"
  using assms by (auto simp: load_cache_def GitHubClient_init_def)

lemma empty_cache_fetch_sends:
  "cache (gh w) = Map.empty \<Longrightarrow>
     sent (snd (get_all_pull_requests e n s d w)) = sent w @ [pulls_request (gh w) n]"
  by (simp add: get_all_sent)

section \<open>The loops of main\<close>

lemma repo_errors_append: "repo_errors (xs @ ys) = repo_errors xs @ repo_errors ys"
  by (induction xs rule: repo_errors.induct) simp_all

lemma member_headers_append:
  "member_headers (xs @ ys) = member_headers xs @ member_headers ys"
  by (induction xs rule: member_headers.induct) simp_all

lemma pr_summaries_append: "pr_summaries (xs @ ys) = pr_summaries xs @ pr_summaries ys"
  by (induction xs rule: pr_summaries.induct) simp_all

lemma get_all_console:
  "console (snd (get_all_pull_requests e n s d w)) = console w
   \<or> console (snd (get_all_pull_requests e n s d w)) = console w @ [SaveWarning]"
proof (cases "cache (gh w) (get_cache_key n s d)")
  case None
  show ?thesis
    unfolding get_all_miss [OF None]
    by (simp add: save_cache_def split: option.splits sum.splits)
next
  case (Some prs)
  then show ?thesis by (simp add: get_all_hit)
qed

lemma get_user_snd:
  "snd (get_user_pull_requests e n u s d w) = snd (get_all_pull_requests e n s d w)"
  by (cases "get_all_pull_requests e n s d w")
     (auto simp: get_user_pull_requests_def split: sum.splits)

lemma get_user_quiet:
  "repo_errors (console (snd (get_user_pull_requests e n u s d w))) = repo_errors (console w)"
  "member_headers (console (snd (get_user_pull_requests e n u s d w)))
     = member_headers (console w)"
  "pr_summaries (console (snd (get_user_pull_requests e n u s d w)))
     = pr_summaries (console w)"
  using get_all_console [of e n s d w]
  by (auto simp: get_user_snd repo_errors_append member_headers_append pr_summaries_append)

lemma fetch_repos_Cons:
  "fetch_repos e u s d (p # ps) acc w =
     (case fst (get_user_pull_requests e (repo_name_of p) u s d w) of
        Inl ex \<Rightarrow>
          fetch_repos e u s d ps acc
            (print_line (RepoError (repo_name_of p) ex)
               (snd (get_user_pull_requests e (repo_name_of p) u s d w)))
      | Inr prs \<Rightarrow>
          fetch_repos e u s d ps (acc @ prs)
            (snd (get_user_pull_requests e (repo_name_of p) u s d w)))"
  by (cases "get_user_pull_requests e (repo_name_of p) u s d w")
     (simp split: sum.splits)

lemma repo_outcomes_Cons:
  "repo_outcomes e u s d (p # ps) w =
     (case fst (get_user_pull_requests e (repo_name_of p) u s d w) of
        Inl ex \<Rightarrow>
          (repo_name_of p, Inl ex)
            # repo_outcomes e u s d ps
                (print_line (RepoError (repo_name_of p) ex)
                   (snd (get_user_pull_requests e (repo_name_of p) u s d w)))
      | Inr prs \<Rightarrow>
          (repo_name_of p, Inr prs)
            # repo_outcomes e u s d ps
                (snd (get_user_pull_requests e (repo_name_of p) u s d w)))"
  by (cases "get_user_pull_requests e (repo_name_of p) u s d w")
     (simp split: sum.splits)

lemma fetch_repos_outcomes:
  "fst (fetch_repos e u s d ps acc w) = acc @ successes (repo_outcomes e u s d ps w)
   \<and> repo_errors (console (snd (fetch_repos e u s d ps acc w)))
       = repo_errors (console w) @ failures (repo_outcomes e u s d ps w)
   \<and> member_headers (console (snd (fetch_repos e u s d ps acc w)))
       = member_headers (console w)
   \<and> pr_summaries (console (snd (fetch_repos e u s d ps acc w))) = pr_summaries (console w)
   \<and> map fst (repo_outcomes e u s d ps w) = map repo_name_of ps"
proof (induction ps arbitrary: acc w)
  case Nil
  show ?case by simp
next
  case (Cons p ps)
  show ?case
  proof (cases "fst (get_user_pull_requests e (repo_name_of p) u s d w)")
    case (Inl ex)
    then show ?thesis
      unfolding fetch_repos_Cons repo_outcomes_Cons
      by (simp add: Cons.IH get_user_quiet repo_errors_append member_headers_append
            pr_summaries_append)
  next
    case (Inr prs)
    then show ?thesis
      unfolding fetch_repos_Cons repo_outcomes_Cons
      by (simp add: Cons.IH get_user_quiet)
  qed
qed

lemma get_user_activities_console:
  "console (snd (get_user_activities e jc em s d w)) = console w"
  by (simp add: get_user_activities_def Let_def split: option.splits)

lemma jira_lines_append: "jira_lines (xs @ ys) = jira_lines xs @ jira_lines ys"
  by (induction xs rule: jira_lines.induct) simp_all

lemma get_user_no_jira_line:
  "jira_lines (console (snd (get_user_pull_requests e n u s d w))) = jira_lines (console w)"
  using get_all_console [of e n s d w]
  by (auto simp: get_user_snd jira_lines_append)

lemma fetch_repos_no_jira_line:
  "jira_lines (console (snd (fetch_repos e u s d ps acc w))) = jira_lines (console w)"
proof (induction ps arbitrary: acc w)
  case Nil
  show ?case by simp
next
  case (Cons p ps)
  show ?case
  proof (cases "fst (get_user_pull_requests e (repo_name_of p) u s d w)")
    case (Inl ex)
    then show ?thesis
      unfolding fetch_repos_Cons
      by (simp add: Cons.IH get_user_no_jira_line jira_lines_append)
  next
    case (Inr prs)
    then show ?thesis
      unfolding fetch_repos_Cons
      by (simp add: Cons.IH get_user_no_jira_line)
  qed
qed

lemma process_member_eq:
  "process_member e jc s d ps m w =
     print_line (pr_line (fst (fetch_repos e (github_user m) s d ps [] (after_jira e jc s d m w))))
       (snd (fetch_repos e (github_user m) s d ps [] (after_jira e jc s d m w)))"
proof -
  obtain r w' where j: "get_user_activities e jc (email m) s d
      (print_line (MemberHeader (email m)) w) = (r, w')"
    by (cases "get_user_activities e jc (email m) s d (print_line (MemberHeader (email m)) w)")
  have w2: "(case get_user_activities e jc (email m) s d
                 (print_line (MemberHeader (email m)) w) of
               (Inr jira_issues, w') \<Rightarrow>
                 if jira_issues \<noteq> [] then print_line (JiraActivities jira_issues) w'
                 else print_line NoJiraActivities w'
             | (Inl ex, w') \<Rightarrow> print_line (JiraError ex) w')
            = after_jira e jc s d m w"
    by (cases r) (simp_all add: j after_jira_def jira_result_def jira_line_def)
  obtain all_prs w3 where
    f: "fetch_repos e (github_user m) s d ps [] (after_jira e jc s d m w) = (all_prs, w3)"
    by (cases "fetch_repos e (github_user m) s d ps [] (after_jira e jc s d m w)")
  have "process_member e jc s d ps m w =
      (case fetch_repos e (github_user m) s d ps [] (after_jira e jc s d m w) of
         (all_prs, w3) \<Rightarrow>
           if all_prs \<noteq> [] then print_line (PullRequests all_prs) w3
           else print_line NoPullRequests w3)"
    unfolding process_member_def Let_def w2 ..
  then show ?thesis
    by (simp add: f pr_line_def)
qed

lemma after_jira_console:
  "console (after_jira e jc s d m w)
     = console w @ [MemberHeader (email m), jira_line (jira_result e jc s d m w)]"
  using get_user_activities_console [of e jc "email m" s d "print_line (MemberHeader (email m)) w"]
  by (simp add: after_jira_def)

lemma jira_line_kind:
  "jira_lines [jira_line r] = [jira_line r]" "repo_errors [jira_line r] = []"
  "member_headers [jira_line r] = []" "pr_summaries [jira_line r] = []"
  by (cases r; simp add: jira_line_def)+

lemma pr_line_kind:
  "pr_summaries [pr_line prs] = [prs]" "jira_lines [pr_line prs] = []"
  "repo_errors [pr_line prs] = []" "member_headers [pr_line prs] = []"
  by (simp_all add: pr_line_def)

lemma process_member_report:
  "pr_summaries (console (process_member e jc s d ps m w))
     = pr_summaries (console w)
         @ [successes (repo_outcomes e (github_user m) s d ps (after_jira e jc s d m w))]
   \<and> repo_errors (console (process_member e jc s d ps m w))
     = repo_errors (console w)
         @ failures (repo_outcomes e (github_user m) s d ps (after_jira e jc s d m w))
   \<and> jira_lines (console (process_member e jc s d ps m w))
     = jira_lines (console w) @ [jira_line (jira_result e jc s d m w)]
   \<and> member_headers (console (process_member e jc s d ps m w))
     = member_headers (console w) @ [email m]"
  using fetch_repos_outcomes [of e "github_user m" s d ps "[]" "after_jira e jc s d m w"]
    fetch_repos_no_jira_line [of e "github_user m" s d ps "[]" "after_jira e jc s d m w"]
  by (simp add: process_member_eq after_jira_console pr_summaries_append repo_errors_append
        jira_lines_append member_headers_append jira_line_kind pr_line_kind)

lemma per_member_phase_report:
  "pr_summaries (console (per_member_phase e jc s d ps ms w))
     = pr_summaries (console w)
         @ map (\<lambda>(m, wi). successes (repo_outcomes e (github_user m) s d ps
                  (after_jira e jc s d m wi)))
             (zip ms (turn_starts e jc s d ps ms w))
   \<and> repo_errors (console (per_member_phase e jc s d ps ms w))
     = repo_errors (console w)
         @ concat (map (\<lambda>(m, wi). failures (repo_outcomes e (github_user m) s d ps
                  (after_jira e jc s d m wi)))
             (zip ms (turn_starts e jc s d ps ms w)))
   \<and> jira_lines (console (per_member_phase e jc s d ps ms w))
     = jira_lines (console w)
         @ map (\<lambda>(m, wi). jira_line (jira_result e jc s d m wi))
             (zip ms (turn_starts e jc s d ps ms w))
   \<and> member_headers (console (per_member_phase e jc s d ps ms w))
     = member_headers (console w) @ map email ms"
proof (induction ms arbitrary: w)
  case Nil
  show ?case by simp
next
  case (Cons m ms)
  show ?case
    using Cons.IH [of "process_member e jc s d ps m w"]
      process_member_report [of e jc s d ps m w]
    by simp
qed

lemma run_alice_repos:
  "repo_outcomes ex_env ''alice'' ex_start ex_end ex_projects ex_world
     = [(''A'', Inr [to_record ''A'' pr1]),
        (''B'', Inl (Exception ''GitHub API error: 500 - boom'')),
        (''C'', Inr [to_record ''C'' pr5])]"
  by code_simp

lemma run_team_console:
  "console (per_member_phase ex_env ex_jira_client ex_start ex_end ex_projects ex_members
      ex_world)
     = [MemberHeader ''alice@example.com'',
        JiraActivities alice_records,
        RepoError ''B'' (Exception ''GitHub API error: 500 - boom''),
        PullRequests [to_record ''A'' pr1, to_record ''C'' pr5],
        MemberHeader ''bob@example.com'',
        JiraError (Exception ''Jira API error: 403 - Forbidden''),
        RepoError ''B'' (Exception ''GitHub API error: 500 - boom''),
        PullRequests [to_record ''A'' pr2]]"
  by code_simp

section \<open>The date range filter\<close>

text \<open>
  C1, as the code has it. A fetch that reads the remote service keeps an item if and
  only if \<open>start_date \<le> t \<le> end_date\<close>, both ends included, where \<open>t\<close> is the item's
  timestamp as written, its UTC offset dropped without conversion. For the code-hosting
  client this is the fetch on a cache miss: the records are those of the pull requests of
  the answer whose \<open>updated_at\<close> is in the range, in the answer's order, and the record of
  a pull request of the answer is among them exactly when its timestamp is in the range.
  For the issue tracker it is every fetch: the changes of each issue are those of the
  history entries whose \<open>created\<close> is in the range, in order. A range with
  \<open>start_date \<le> end_date\<close> contains both its ends. On a cache hit the code-hosting fetch
  returns the records stored under the key as they are: after a fetch that returned, a
  fetch whose range gives the same key returns the same records, whatever its times of
  day.
\<close>

theorem range_filter_inclusive:
  "(cache (gh w) (get_cache_key n s d) = None
      \<and> fst (get_all_pull_requests e n s d w) = Inr recs
      \<longrightarrow> (\<exists>r prs_data. github_api e (length (sent w)) (pulls_request (gh w) n) = Some r
            \<and> json_body r = Some prs_data
            \<and> recs = map (to_record n) (filter (pr_in_range e s d) prs_data)
            \<and> (\<forall>pr\<in>set prs_data. \<exists>t. pr_date e pr = Some t
                  \<and> (to_record n pr \<in> set recs \<longleftrightarrow> dt_le s t \<and> dt_le t d))))
   \<and> (fst (get_user_activities e jc em s d w) = Inr irecs
      \<longrightarrow> (\<exists>r data. jira_api e (length (sent w)) (search_request jc em s d) = Some r
            \<and> json_body r = Some data \<and> length irecs = length (issues_of data)
            \<and> (\<forall>i<length irecs.
                 changes (irecs ! i)
                   = concat (map (\<lambda>h. scan_items (items_of h) [])
                       (filter (history_in_range e s d) (histories_of (issues_of data ! i))))
                 \<and> (\<forall>h\<in>set (histories_of (issues_of data ! i)).
                       \<exists>t. history_date e h = Some t
                         \<and> (history_in_range e s d h \<longleftrightarrow> dt_le s t \<and> dt_le t d)))))
   \<and> (dt_le s d \<longrightarrow> in_range s d s \<and> in_range s d d)
   \<and> (cache (gh w) (get_cache_key n s d) = Some cached
      \<longrightarrow> get_all_pull_requests e n s d w = (Inr cached, w))
   \<and> (get_cache_key n s' d' = get_cache_key n s d
      \<and> fst (get_all_pull_requests e n s d w) = Inr recs
      \<longrightarrow> get_all_pull_requests e n s' d' (snd (get_all_pull_requests e n s d w))
            = (Inr recs, snd (get_all_pull_requests e n s d w)))"
proof (intro conjI impI)
  assume "cache (gh w) (get_cache_key n s d) = None
            \<and> fst (get_all_pull_requests e n s d w) = Inr recs"
  then show "\<exists>r prs_data. github_api e (length (sent w)) (pulls_request (gh w) n) = Some r
            \<and> json_body r = Some prs_data
            \<and> recs = map (to_record n) (filter (pr_in_range e s d) prs_data)
            \<and> (\<forall>pr\<in>set prs_data. \<exists>t. pr_date e pr = Some t
                  \<and> (to_record n pr \<in> set recs \<longleftrightarrow> dt_le s t \<and> dt_le t d))"
    using github_range_filter [of w n s d e recs] by blast
next
  assume "fst (get_user_activities e jc em s d w) = Inr irecs"
  then show "\<exists>r data. jira_api e (length (sent w)) (search_request jc em s d) = Some r
            \<and> json_body r = Some data \<and> length irecs = length (issues_of data)
            \<and> (\<forall>i<length irecs.
                 changes (irecs ! i)
                   = concat (map (\<lambda>h. scan_items (items_of h) [])
                       (filter (history_in_range e s d) (histories_of (issues_of data ! i))))
                 \<and> (\<forall>h\<in>set (histories_of (issues_of data ! i)).
                       \<exists>t. history_date e h = Some t
                         \<and> (history_in_range e s d h \<longleftrightarrow> dt_le s t \<and> dt_le t d)))"
    by (rule jira_range_filter)
next
  assume "dt_le s d"
  then show "in_range s d s" by (simp add: in_range_def dt_le_refl)
next
  assume "dt_le s d"
  then show "in_range s d d" by (simp add: in_range_def dt_le_refl)
next
  assume "cache (gh w) (get_cache_key n s d) = Some cached"
  then show "get_all_pull_requests e n s d w = (Inr cached, w)"
    by (rule get_all_hit)
next
  assume "get_cache_key n s' d' = get_cache_key n s d
      \<and> fst (get_all_pull_requests e n s d w) = Inr recs"
  then show "get_all_pull_requests e n s' d' (snd (get_all_pull_requests e n s d w))
            = (Inr recs, snd (get_all_pull_requests e n s d w))"
    using same_key_hit [of n s' d' s d e w recs] by blast
qed

text \<open>
  In the run, the pull requests of repository \<open>A\<close> updated exactly at the start and exactly
  at the end of the range are kept, the one a second after the end and the one a second
  before the start are not; a second fetch the same day, with a range from half past
  five to half past five, gets the records of the first.
\<close>

theorem range_filter_inclusive_witness:
  "(cache (gh ex_world) (get_cache_key ''A'' ex_start ex_end) = None
      \<and> fst (get_all_pull_requests ex_env ''A'' ex_start ex_end ex_world)
          = Inr [to_record ''A'' pr1, to_record ''A'' pr2])
   \<and> (\<exists>r prs_data.
         github_api ex_env (length (sent ex_world)) (pulls_request (gh ex_world) ''A'') = Some r
         \<and> json_body r = Some prs_data
         \<and> [to_record ''A'' pr1, to_record ''A'' pr2]
             = map (to_record ''A'') (filter (pr_in_range ex_env ex_start ex_end) prs_data)
         \<and> (\<forall>pr\<in>set prs_data. \<exists>t. pr_date ex_env pr = Some t
               \<and> (to_record ''A'' pr \<in> set [to_record ''A'' pr1, to_record ''A'' pr2]
                    \<longleftrightarrow> dt_le ex_start t \<and> dt_le t ex_end)))
   \<and> fst (get_user_activities ex_env ex_jira_client ''alice@example.com'' ex_start ex_end
        ex_world) = Inr alice_records
   \<and> (\<exists>r data.
         jira_api ex_env (length (sent ex_world))
           (search_request ex_jira_client ''alice@example.com'' ex_start ex_end) = Some r
         \<and> json_body r = Some data \<and> length alice_records = length (issues_of data)
         \<and> (\<forall>i<length alice_records.
               changes (alice_records ! i)
                 = concat (map (\<lambda>h. scan_items (items_of h) [])
                     (filter (history_in_range ex_env ex_start ex_end)
                        (histories_of (issues_of data ! i))))
               \<and> (\<forall>h\<in>set (histories_of (issues_of data ! i)).
                     \<exists>t. history_date ex_env h = Some t
                       \<and> (history_in_range ex_env ex_start ex_end h
                            \<longleftrightarrow> dt_le ex_start t \<and> dt_le t ex_end))))
   \<and> dt_le ex_start ex_end \<and> in_range ex_start ex_end ex_start
   \<and> in_range ex_start ex_end ex_end
   \<and> pr_date ex_env pr1 = Some ex_start \<and> pr_date ex_env pr2 = Some ex_end
   \<and> pr_date ex_env pr3 = Some (datetime_of 2024 3 5 9 0 1)
   \<and> pr_date ex_env pr4 = Some (datetime_of 2024 3 4 8 59 59)
   \<and> cache (gh warm_world) (get_cache_key ''A'' ex_start ex_end) = Some [to_record ''A'' pr1]
   \<and> get_all_pull_requests ex_env ''A'' ex_start ex_end warm_world
       = (Inr [to_record ''A'' pr1], warm_world)
   \<and> get_cache_key ''A'' late_start late_end = get_cache_key ''A'' ex_start ex_end
   \<and> get_all_pull_requests ex_env ''A'' late_start late_end
        (snd (get_all_pull_requests ex_env ''A'' ex_start ex_end ex_world))
       = (Inr [to_record ''A'' pr1, to_record ''A'' pr2],
          snd (get_all_pull_requests ex_env ''A'' ex_start ex_end ex_world))"
proof -
  note th = range_filter_inclusive [of ex_world "''A''" ex_start ex_end ex_env
      "[to_record ''A'' pr1, to_record ''A'' pr2]" ex_jira_client "''alice@example.com''"
      alice_records "[]" late_start late_end]
  note warm = range_filter_inclusive [of warm_world "''A''" ex_start ex_end ex_env
      "[]" ex_jira_client "''alice@example.com''" "[]" "[to_record ''A'' pr1]"
      late_start late_end]
  have dates: "pr_date ex_env pr1 = Some ex_start \<and> pr_date ex_env pr2 = Some ex_end
      \<and> pr_date ex_env pr3 = Some (datetime_of 2024 3 5 9 0 1)
      \<and> pr_date ex_env pr4 = Some (datetime_of 2024 3 4 8 59 59)"
    by (simp add: pr_date_def ex_defs)
  have first: "cache (gh ex_world) (get_cache_key ''A'' ex_start ex_end) = None
      \<and> fst (get_all_pull_requests ex_env ''A'' ex_start ex_end ex_world)
          = Inr [to_record ''A'' pr1, to_record ''A'' pr2]"
    using miss_A run_A by (rule conjI)
  note c1 = mp [OF th [THEN conjunct1] first]
  note c2 = mp [OF th [THEN conjunct2, THEN conjunct1] run_alice]
  note c3 = mp [OF th [THEN conjunct2, THEN conjunct2, THEN conjunct1] ex_range]
  note c4 = mp [OF warm [THEN conjunct2, THEN conjunct2, THEN conjunct2, THEN conjunct1]
      warm_hit]
  note c5 = mp [OF th [THEN conjunct2, THEN conjunct2, THEN conjunct2, THEN conjunct2]
      conjI [OF late_key run_A]]
  from first c1 run_alice c2 ex_range c3 dates warm_hit c4 late_key c5
  show ?thesis by (intro conjI) simp_all
qed

text \<open>
  That second fetch returns the pull request updated at nine, before its range starts,
  and does not return the one of the service's answer updated at one second past nine
  the next morning, inside its range.
\<close>

theorem stale_range_counterexample:
  "dt_le late_start late_end
   \<and> fst (get_all_pull_requests ex_env ''A'' ex_start ex_end ex_world)
       = Inr [to_record ''A'' pr1, to_record ''A'' pr2]
   \<and> fst (get_all_pull_requests ex_env ''A'' late_start late_end
        (snd (get_all_pull_requests ex_env ''A'' ex_start ex_end ex_world)))
       = Inr [to_record ''A'' pr1, to_record ''A'' pr2]
   \<and> pr_date ex_env pr1 = Some (datetime_of 2024 3 4 9 0 0)
   \<and> \<not> dt_le late_start (datetime_of 2024 3 4 9 0 0)
   \<and> github_api ex_env 1 (pulls_request ex_client ''A'')
       = Some \<lparr>status_code = 200, response_text = ''[...]'',
               json_body = Some [pr1, pr2, pr3, pr4]\<rparr>
   \<and> pr_date ex_env pr3 = Some (datetime_of 2024 3 5 9 0 1)
   \<and> in_range late_start late_end (datetime_of 2024 3 5 9 0 1)
   \<and> to_record ''A'' pr3 \<notin> set [to_record ''A'' pr1, to_record ''A'' pr2]"
proof -
  have second: "fst (get_all_pull_requests ex_env ''A'' late_start late_end
        (snd (get_all_pull_requests ex_env ''A'' ex_start ex_end ex_world)))
       = Inr [to_record ''A'' pr1, to_record ''A'' pr2]"
    using same_key_hit [OF late_key run_A] by simp
  have facts: "dt_le late_start late_end
     \<and> pr_date ex_env pr1 = Some (datetime_of 2024 3 4 9 0 0)
     \<and> \<not> dt_le late_start (datetime_of 2024 3 4 9 0 0)
     \<and> github_api ex_env 1 (pulls_request ex_client ''A'')
         = Some \<lparr>status_code = 200, response_text = ''[...]'',
                 json_body = Some [pr1, pr2, pr3, pr4]\<rparr>
     \<and> pr_date ex_env pr3 = Some (datetime_of 2024 3 5 9 0 1)
     \<and> in_range late_start late_end (datetime_of 2024 3 5 9 0 1)
     \<and> to_record ''A'' pr3 \<notin> set [to_record ''A'' pr1, to_record ''A'' pr2]"
    by (simp add: pr_date_def in_range_def late_start_def late_end_def ex_defs)
  from run_A second facts show ?thesis by simp
qed

section \<open>Two calls with the same repository and range\<close>

text \<open>
  C2, as the code has it. When the first call returns records, a second call with the
  same repository and range sends no request, changes nothing and returns the same
  records; the first call sends one request if the key was not in the cache, and none if
  it was there already (from the cache file or from earlier in the run). When the first
  call raises, it stores nothing, and the second call sends its request again.
\<close>

theorem second_call_from_cache:
  "(fst (get_all_pull_requests e n s d w) = Inr recs \<longrightarrow>
      get_all_pull_requests e n s d (snd (get_all_pull_requests e n s d w))
        = (Inr recs, snd (get_all_pull_requests e n s d w))
      \<and> sent (snd (get_all_pull_requests e n s d w))
        = (if cache (gh w) (get_cache_key n s d) = None
           then sent w @ [pulls_request (gh w) n] else sent w))
   \<and> (fst (get_all_pull_requests e n s d w) = Inl ex \<longrightarrow>
      gh (snd (get_all_pull_requests e n s d w)) = gh w
      \<and> sent (snd (get_all_pull_requests e n s d (snd (get_all_pull_requests e n s d w))))
        = sent w @ [pulls_request (gh w) n, pulls_request (gh w) n])"
proof (intro conjI impI)
  obtain r w1 where run: "get_all_pull_requests e n s d w = (r, w1)"
    by (cases "get_all_pull_requests e n s d w")
  {
    assume "fst (get_all_pull_requests e n s d w) = Inr recs"
    with run have ok: "get_all_pull_requests e n s d w = (Inr recs, w1)"
      by simp
    have "cache (gh w1) (get_cache_key n s d) = Some recs"
      by (rule get_all_Inr_cached [OF ok])
    then have "get_all_pull_requests e n s d w1 = (Inr recs, w1)"
      by (rule get_all_hit)
    with run
    show "get_all_pull_requests e n s d (snd (get_all_pull_requests e n s d w))
            = (Inr recs, snd (get_all_pull_requests e n s d w))"
      by simp
    show "sent (snd (get_all_pull_requests e n s d w))
            = (if cache (gh w) (get_cache_key n s d) = None
               then sent w @ [pulls_request (gh w) n] else sent w)"
      by (rule get_all_sent)
  }
  {
    assume "fst (get_all_pull_requests e n s d w) = Inl ex"
    with run have bad: "get_all_pull_requests e n s d w = (Inl ex, w1)"
      by simp
    have same: "gh w1 = gh w"
      by (rule get_all_Inl_cache [OF bad])
    with run show "gh (snd (get_all_pull_requests e n s d w)) = gh w"
      by simp
    have miss: "cache (gh w) (get_cache_key n s d) = None"
    proof (cases "cache (gh w) (get_cache_key n s d)")
      case None
      then show ?thesis .
    next
      case (Some prs)
      with bad show ?thesis by (simp add: get_all_hit)
    qed
    have "sent w1 = sent w @ [pulls_request (gh w) n]"
      using get_all_sent [of e n s d w] run miss by simp
    moreover have "sent (snd (get_all_pull_requests e n s d w1))
                     = sent w1 @ [pulls_request (gh w1) n]"
      using get_all_sent [of e n s d w1] miss same by simp
    ultimately
    show "sent (snd (get_all_pull_requests e n s d (snd (get_all_pull_requests e n s d w))))
            = sent w @ [pulls_request (gh w) n, pulls_request (gh w) n]"
      using run same by simp
  }
qed

text \<open>
  In the run, two calls for repository \<open>A\<close> send one request; two calls for repository
  \<open>B\<close>, whose answer is a status 500, send two.
\<close>

theorem second_call_from_cache_witness:
  "fst (get_all_pull_requests ex_env ''A'' ex_start ex_end ex_world)
     = Inr [to_record ''A'' pr1, to_record ''A'' pr2]
   \<and> get_all_pull_requests ex_env ''A'' ex_start ex_end
        (snd (get_all_pull_requests ex_env ''A'' ex_start ex_end ex_world))
     = (Inr [to_record ''A'' pr1, to_record ''A'' pr2],
        snd (get_all_pull_requests ex_env ''A'' ex_start ex_end ex_world))
   \<and> sent (snd (get_all_pull_requests ex_env ''A'' ex_start ex_end ex_world))
     = [pulls_request ex_client ''A'']
   \<and> fst (get_all_pull_requests ex_env ''B'' ex_start ex_end ex_world)
     = Inl (Exception ''GitHub API error: 500 - boom'')
   \<and> sent (snd (get_all_pull_requests ex_env ''B'' ex_start ex_end
        (snd (get_all_pull_requests ex_env ''B'' ex_start ex_end ex_world))))
     = [pulls_request ex_client ''B'', pulls_request ex_client ''B'']"
proof -
  note a = second_call_from_cache [of ex_env "''A''" ex_start ex_end ex_world
      "[to_record ''A'' pr1, to_record ''A'' pr2]"]
  note b = second_call_from_cache [of ex_env "''B''" ex_start ex_end ex_world _
      "Exception ''GitHub API error: 500 - boom''"]
  have w: "sent ex_world = []" "gh ex_world = ex_client"
    by (simp_all add: ex_world_def)
  from a run_A miss_A have
    "get_all_pull_requests ex_env ''A'' ex_start ex_end
        (snd (get_all_pull_requests ex_env ''A'' ex_start ex_end ex_world))
     = (Inr [to_record ''A'' pr1, to_record ''A'' pr2],
        snd (get_all_pull_requests ex_env ''A'' ex_start ex_end ex_world))"
    "sent (snd (get_all_pull_requests ex_env ''A'' ex_start ex_end ex_world))
     = [pulls_request ex_client ''A'']"
    by (simp_all add: w)
  moreover from b run_B have
    "sent (snd (get_all_pull_requests ex_env ''B'' ex_start ex_end
        (snd (get_all_pull_requests ex_env ''B'' ex_start ex_end ex_world))))
     = [pulls_request ex_client ''B'', pulls_request ex_client ''B'']"
    by (simp add: w)
  ultimately show ?thesis
    using run_A run_B by simp
qed

text \<open>
  With the key already in the cache file when the client is built, the two calls send no
  request at all, not one.
\<close>

theorem two_calls_one_request_counterexample:
  "fst (get_all_pull_requests ex_env ''A'' ex_start ex_end warm_world)
     = Inr [to_record ''A'' pr1]
   \<and> fst (get_all_pull_requests ex_env ''A'' ex_start ex_end
        (snd (get_all_pull_requests ex_env ''A'' ex_start ex_end warm_world)))
     = Inr [to_record ''A'' pr1]
   \<and> length (sent (snd (get_all_pull_requests ex_env ''A'' ex_start ex_end
        (snd (get_all_pull_requests ex_env ''A'' ex_start ex_end warm_world)))))
     = length (sent warm_world)
   \<and> length (sent (snd (get_all_pull_requests ex_env ''A'' ex_start ex_end
        (snd (get_all_pull_requests ex_env ''A'' ex_start ex_end warm_world)))))
     \<noteq> length (sent warm_world) + 1"
  by (simp add: warm_A)

section \<open>The cache key\<close>

text \<open>
  C4. Two ranges whose start timestamps fall on the same calendar day and whose end
  timestamps fall on the same calendar day get the same cache key for a repository,
  whatever their times of day.
\<close>

theorem cache_key_day_granular:
  assumes "year s1 = year s2" "month s1 = month s2" "day s1 = day s2"
    and "year e1 = year e2" "month e1 = month e2" "day e1 = day e2"
  shows "get_cache_key repo_name s1 e1 = get_cache_key repo_name s2 e2"
  using assms by (simp add: get_cache_key_def strftime_Ymd_def)

text \<open>
  A run at nine o'clock and a run at half past five of the same day, both looking one
  day back, use the key \<open>api_20240304_20240305\<close>.
\<close>

theorem cache_key_day_granular_witness:
  "get_cache_key ''api'' (datetime_of 2024 3 4 9 0 0) (datetime_of 2024 3 5 9 0 0)
     = get_cache_key ''api'' (datetime_of 2024 3 4 17 30 0) (datetime_of 2024 3 5 17 30 0)
   \<and> get_cache_key ''api'' (datetime_of 2024 3 4 17 30 0) (datetime_of 2024 3 5 17 30 0)
     = ''api_20240304_20240305''"
  using cache_key_day_granular [of "datetime_of 2024 3 4 9 0 0" "datetime_of 2024 3 4 17 30 0"
      "datetime_of 2024 3 5 9 0 0" "datetime_of 2024 3 5 17 30 0" "''api''"]
  by (simp add: datetime_of_def get_cache_key_def strftime_Ymd_def zfill_def
        str_nat.simps digit_def)

section \<open>The pull requests of one author\<close>

text \<open>
  C5. \<open>get_user_pull_requests\<close> leaves the state \<open>get_all_pull_requests\<close> leaves for the same
  repository and range, so it sends no request and touches the cache no more than that
  one call does (at most one request); its result is the result of
  \<open>get_all_pull_requests\<close> filtered by the author, a subset of it in which every record has
  the queried author; and it raises what \<open>get_all_pull_requests\<close> raises.
\<close>

theorem user_pull_requests_filter:
  "snd (get_user_pull_requests e n u s d w) = snd (get_all_pull_requests e n s d w)
   \<and> length (sent (snd (get_user_pull_requests e n u s d w))) \<le> length (sent w) + 1
   \<and> (fst (get_all_pull_requests e n s d w) = Inr all_prs \<longrightarrow>
        fst (get_user_pull_requests e n u s d w) = Inr (filter (\<lambda>pr. author pr = u) all_prs)
        \<and> set (filter (\<lambda>pr. author pr = u) all_prs) \<subseteq> set all_prs
        \<and> (\<forall>pr\<in>set (filter (\<lambda>pr. author pr = u) all_prs). author pr = u))
   \<and> (fst (get_all_pull_requests e n s d w) = Inl ex \<longrightarrow>
        fst (get_user_pull_requests e n u s d w) = Inl ex)"
proof -
  obtain r w' where r: "get_all_pull_requests e n s d w = (r, w')"
    by (cases "get_all_pull_requests e n s d w")
  have "length (sent (snd (get_all_pull_requests e n s d w))) \<le> length (sent w) + 1"
    by (simp add: get_all_sent)
  with r show ?thesis
    by (cases r) (auto simp: get_user_pull_requests_def)
qed

text \<open>
  In the run, repository \<open>A\<close> has a pull request of alice and one of bob in the range; the
  query for alice gives the first.
\<close>

theorem user_pull_requests_filter_witness:
  "fst (get_all_pull_requests ex_env ''A'' ex_start ex_end ex_world)
     = Inr [to_record ''A'' pr1, to_record ''A'' pr2]
   \<and> fst (get_user_pull_requests ex_env ''A'' ''alice'' ex_start ex_end ex_world)
     = Inr [to_record ''A'' pr1]
   \<and> snd (get_user_pull_requests ex_env ''A'' ''alice'' ex_start ex_end ex_world)
     = snd (get_all_pull_requests ex_env ''A'' ex_start ex_end ex_world)
   \<and> length (sent (snd (get_user_pull_requests ex_env ''A'' ''alice'' ex_start ex_end
        ex_world))) \<le> length (sent ex_world) + 1"
proof -
  note th = user_pull_requests_filter [of ex_env "''A''" "''alice''" ex_start ex_end ex_world
      "[to_record ''A'' pr1, to_record ''A'' pr2]"]
  from th run_A have
    "fst (get_user_pull_requests ex_env ''A'' ''alice'' ex_start ex_end ex_world)
       = Inr (filter (\<lambda>pr. author pr = ''alice'') [to_record ''A'' pr1, to_record ''A'' pr2])"
    by blast
  moreover
  have "filter (\<lambda>pr. author pr = ''alice'') [to_record ''A'' pr1, to_record ''A'' pr2]
          = [to_record ''A'' pr1]"
    by (simp add: to_record_def pr1_def pr2_def pr_of_def)
  ultimately
  have "fst (get_user_pull_requests ex_env ''A'' ''alice'' ex_start ex_end ex_world)
       = Inr [to_record ''A'' pr1]"
    by (rule trans [OF _ arg_cong])
  with th run_A show ?thesis by blast
qed

section \<open>Ignored fields\<close>

text \<open>
  C6. When the issue-tracker fetch returns, the changes of each issue are the
  descriptions of the items of its in-range history entries whose field is neither
  \<open>description\<close> nor \<open>Bug Template\<close>, in order: an item with one of these two fields gives
  no change, also inside an entry that is in the range.
\<close>

theorem ignored_fields_never_emitted:
  assumes "fst (get_user_activities e jc em s d w) = Inr recs"
  shows "\<exists>r data. jira_api e (length (sent w)) (search_request jc em s d) = Some r
           \<and> json_body r = Some data \<and> length recs = length (issues_of data)
           \<and> (\<forall>i<length recs.
                 changes (recs ! i)
                   = map change_desc (filter (\<lambda>it. \<not> is_ignored it)
                       (concat (map items_of
                          (filter (history_in_range e s d)
                             (histories_of (issues_of data ! i)))))))"
  using assms by (rule jira_changes_items)

text \<open>
  In the run, the in-range entry of issue \<open>API-1\<close> changes the description, the status and
  the bug template; only the status change is emitted.
\<close>

theorem ignored_fields_never_emitted_witness:
  "fst (get_user_activities ex_env ex_jira_client ''alice@example.com'' ex_start ex_end
     ex_world) = Inr alice_records
   \<and> (\<exists>r data.
         jira_api ex_env (length (sent ex_world))
           (search_request ex_jira_client ''alice@example.com'' ex_start ex_end) = Some r
         \<and> json_body r = Some data \<and> length alice_records = length (issues_of data)
         \<and> (\<forall>i<length alice_records.
               changes (alice_records ! i)
                 = map change_desc (filter (\<lambda>it. \<not> is_ignored it)
                     (concat (map items_of
                        (filter (history_in_range ex_env ex_start ex_end)
                           (histories_of (issues_of data ! i))))))))
   \<and> map changes alice_records = [[change_desc item_status], []]
   \<and> is_ignored item_description \<and> is_ignored item_template \<and> \<not> is_ignored item_status
   \<and> history_in_range ex_env ex_start ex_end
        \<lparr>created = ''2024-03-04T12:30:00Z'',
         items = Some [item_description, item_status, item_template]\<rparr>"
proof -
  note th = ignored_fields_never_emitted [OF run_alice]
  have facts: "map changes alice_records = [[change_desc item_status], []]
     \<and> is_ignored item_description \<and> is_ignored item_template \<and> \<not> is_ignored item_status
     \<and> history_in_range ex_env ex_start ex_end
        \<lparr>created = ''2024-03-04T12:30:00Z'',
         items = Some [item_description, item_status, item_template]\<rparr>"
    by (simp add: alice_records_def is_ignored_def item_description_def item_template_def
          item_status_def history_in_range_def history_date_def in_range_def ex_defs)
  from th run_alice facts show ?thesis by blast
qed

section \<open>The error of a fetch\<close>

text \<open>
  C7, as the code has it. A fetch that reaches the remote service (for the code-hosting
  client: on a cache miss) and gets a status other than 200 raises the client's API
  error, whose message holds the status code and the response body, and the client's API
  error is raised in no other case.
\<close>

theorem api_error_iff_status_not_200:
  "(cache (gh w) (get_cache_key n s d) = None
      \<and> github_api e (length (sent w)) (pulls_request (gh w) n) = Some r
      \<and> status_code r \<noteq> 200
      \<longrightarrow> fst (get_all_pull_requests e n s d w)
            = Inl (Exception (''GitHub API error: '' @ str_int (status_code r) @ '' - ''
                @ response_text r)))
   \<and> (fst (get_all_pull_requests e n s d w) = Inl (Exception msg)
      \<longrightarrow> (\<exists>r. github_api e (length (sent w)) (pulls_request (gh w) n) = Some r
            \<and> status_code r \<noteq> 200
            \<and> msg = ''GitHub API error: '' @ str_int (status_code r) @ '' - ''
                @ response_text r))
   \<and> (jira_api e (length (sent w)) (search_request jc em s d) = Some r'
      \<and> status_code r' \<noteq> 200
      \<longrightarrow> fst (get_user_activities e jc em s d w)
            = Inl (Exception (''Jira API error: '' @ str_int (status_code r') @ '' - ''
                @ response_text r')))
   \<and> (fst (get_user_activities e jc em s d w) = Inl (Exception msg')
      \<longrightarrow> (\<exists>r. jira_api e (length (sent w)) (search_request jc em s d) = Some r
            \<and> status_code r \<noteq> 200
            \<and> msg' = ''Jira API error: '' @ str_int (status_code r) @ '' - ''
                @ response_text r))"
proof (intro conjI impI)
  assume "cache (gh w) (get_cache_key n s d) = None
      \<and> github_api e (length (sent w)) (pulls_request (gh w) n) = Some r
      \<and> status_code r \<noteq> 200"
  then show "fst (get_all_pull_requests e n s d w)
            = Inl (Exception (''GitHub API error: '' @ str_int (status_code r) @ '' - ''
                @ response_text r))"
    by (simp add: get_all_fst_miss)
next
  assume "fst (get_all_pull_requests e n s d w) = Inl (Exception msg)"
  then show "\<exists>r. github_api e (length (sent w)) (pulls_request (gh w) n) = Some r
            \<and> status_code r \<noteq> 200
            \<and> msg = ''GitHub API error: '' @ str_int (status_code r) @ '' - ''
                @ response_text r"
    by (rule github_api_error)
next
  assume "jira_api e (length (sent w)) (search_request jc em s d) = Some r'
      \<and> status_code r' \<noteq> 200"
  then show "fst (get_user_activities e jc em s d w)
            = Inl (Exception (''Jira API error: '' @ str_int (status_code r') @ '' - ''
                @ response_text r'))"
    by (simp add: get_user_activities_fst)
next
  assume "fst (get_user_activities e jc em s d w) = Inl (Exception msg')"
  then show "\<exists>r. jira_api e (length (sent w)) (search_request jc em s d) = Some r
            \<and> status_code r \<noteq> 200
            \<and> msg' = ''Jira API error: '' @ str_int (status_code r) @ '' - ''
                @ response_text r"
    by (rule jira_api_error)
qed

text \<open>
  In the run, repository \<open>B\<close> answers 500 and the issue tracker answers 403 for bob: both
  errors hold the status and the body.
\<close>

theorem api_error_iff_status_not_200_witness:
  "cache (gh ex_world) (get_cache_key ''B'' ex_start ex_end) = None
   \<and> github_api ex_env (length (sent ex_world)) (pulls_request (gh ex_world) ''B'')
     = Some boom_answer
   \<and> status_code boom_answer \<noteq> 200
   \<and> fst (get_all_pull_requests ex_env ''B'' ex_start ex_end ex_world)
     = Inl (Exception (''GitHub API error: '' @ str_int (status_code boom_answer) @ '' - ''
         @ response_text boom_answer))
   \<and> ''GitHub API error: '' @ str_int (status_code boom_answer) @ '' - ''
         @ response_text boom_answer
     = ''GitHub API error: 500 - boom''
   \<and> (\<exists>r. github_api ex_env (length (sent ex_world)) (pulls_request (gh ex_world) ''B'')
           = Some r
         \<and> status_code r \<noteq> 200
         \<and> ''GitHub API error: 500 - boom''
           = ''GitHub API error: '' @ str_int (status_code r) @ '' - '' @ response_text r)
   \<and> jira_api ex_env (length (sent ex_world))
        (search_request ex_jira_client ''bob@example.com'' ex_start ex_end)
     = Some forbidden_answer
   \<and> status_code forbidden_answer \<noteq> 200
   \<and> fst (get_user_activities ex_env ex_jira_client ''bob@example.com'' ex_start ex_end
        ex_world)
     = Inl (Exception (''Jira API error: '' @ str_int (status_code forbidden_answer) @ '' - ''
         @ response_text forbidden_answer))
   \<and> ''Jira API error: '' @ str_int (status_code forbidden_answer) @ '' - ''
         @ response_text forbidden_answer
     = ''Jira API error: 403 - Forbidden''
   \<and> (\<exists>r. jira_api ex_env (length (sent ex_world))
            (search_request ex_jira_client ''bob@example.com'' ex_start ex_end) = Some r
         \<and> status_code r \<noteq> 200
         \<and> ''Jira API error: 403 - Forbidden''
           = ''Jira API error: '' @ str_int (status_code r) @ '' - '' @ response_text r)"
proof -
  note b = api_error_iff_status_not_200 [of ex_world "''B''" ex_start ex_end ex_env
      boom_answer "''GitHub API error: 500 - boom''" ex_jira_client "''bob@example.com''"
      forbidden_answer "''Jira API error: 403 - Forbidden''"]
  have st: "status_code boom_answer \<noteq> 200" "status_code forbidden_answer \<noteq> 200"
    by (simp_all add: boom_answer_def forbidden_answer_def)
  have miss: "cache (gh ex_world) (get_cache_key ''B'' ex_start ex_end) = None"
    by (rule miss_any)
  have gh_err: "fst (get_all_pull_requests ex_env ''B'' ex_start ex_end ex_world)
     = Inl (Exception (''GitHub API error: '' @ str_int (status_code boom_answer) @ '' - ''
         @ response_text boom_answer))"
    using b [THEN conjunct1] answer_B miss st by blast
  have jira_err: "fst (get_user_activities ex_env ex_jira_client ''bob@example.com''
        ex_start ex_end ex_world)
     = Inl (Exception (''Jira API error: '' @ str_int (status_code forbidden_answer) @ '' - ''
         @ response_text forbidden_answer))"
    using b [THEN conjunct2, THEN conjunct2, THEN conjunct1] answer_bob st by blast
  have msgs: "''GitHub API error: '' @ str_int (status_code boom_answer) @ '' - ''
         @ response_text boom_answer
       = ''GitHub API error: 500 - boom''"
     "''Jira API error: '' @ str_int (status_code forbidden_answer) @ '' - ''
         @ response_text forbidden_answer
       = ''Jira API error: 403 - Forbidden''"
    by (simp_all add: boom_answer_def forbidden_answer_def str_int_def str_nat.simps digit_def)
  have gh_only: "\<exists>r. github_api ex_env (length (sent ex_world))
           (pulls_request (gh ex_world) ''B'') = Some r
         \<and> status_code r \<noteq> 200
         \<and> ''GitHub API error: 500 - boom''
           = ''GitHub API error: '' @ str_int (status_code r) @ '' - '' @ response_text r"
    by (rule mp [OF b [THEN conjunct2, THEN conjunct1] run_B])
  have jira_only: "\<exists>r. jira_api ex_env (length (sent ex_world))
            (search_request ex_jira_client ''bob@example.com'' ex_start ex_end) = Some r
         \<and> status_code r \<noteq> 200
         \<and> ''Jira API error: 403 - Forbidden''
           = ''Jira API error: '' @ str_int (status_code r) @ '' - '' @ response_text r"
    by (rule mp [OF b [THEN conjunct2, THEN conjunct2, THEN conjunct2] run_bob])
  from miss answer_B st(1) gh_err msgs(1) gh_only answer_bob st(2) jira_err msgs(2) jira_only
  show ?thesis by (intro conjI)
qed

text \<open>
  A fetch can raise although the status is 200: repository \<open>D\<close> answers 200 with a body
  that is not JSON, and the issue tracker answers 200 for carol with a history entry
  whose timestamp does not parse.
\<close>

theorem raises_with_status_200_counterexample:
  "github_api ex_env (length (sent ex_world)) (pulls_request (gh ex_world) ''D'')
     = Some html_answer
   \<and> status_code html_answer = 200
   \<and> fst (get_all_pull_requests ex_env ''D'' ex_start ex_end ex_world) = Inl JSONDecodeError
   \<and> jira_api ex_env (length (sent ex_world))
        (search_request ex_jira_client ''carol@example.com'' ex_start ex_end)
     = Some carol_answer
   \<and> status_code carol_answer = 200
   \<and> fst (get_user_activities ex_env ex_jira_client ''carol@example.com'' ex_start ex_end
        ex_world) = Inl (InvalidIsoformat ''yesterday'')"
  using answer_D run_D answer_carol run_carol
  by (simp add: html_answer_def carol_answer_def)

section \<open>A cache file that cannot be used\<close>

text \<open>
  C8. A cache file that is missing, unreadable or not JSON gives the empty cache, and a
  fetch with the empty cache sends its request. A file whose JSON is not an object is
  not caught: for a file that holds \<open>null\<close> the constructor raises nothing but the cache
  it stores is \<open>None\<close>, not the empty mapping, and the fetch raises \<open>TypeError\<close> before any
  request; for a file that holds \<open>[]\<close> the request is sent and the fetch raises
  \<open>TypeError\<close> when it stores the result.
\<close>

theorem cache_file_not_a_dict:
  "load_cache Missing = Dict Map.empty \<and> load_cache Unreadable = Dict Map.empty
   \<and> load_cache Corrupt = Dict Map.empty
   \<and> sent (snd (get_all_pull_requests ex_env ''A'' ex_start ex_end ex_world))
       = [pulls_request ex_client ''A'']
   \<and> load_cache (StoredOther PyNone) = NotDict PyNone
   \<and> GitHubClient_init (Some ''t0ken'') (StoredOther PyNone)
       = Inr \<lparr>token = ''t0ken'', base_url = ''https://api.github.com'',
              cache_file = ''.github_cache.json'', cache = NotDict PyNone\<rparr>
   \<and> get_all_pull_requests_not_dict ex_env
        \<lparr>token = ''t0ken'', base_url = ''https://api.github.com'',
         cache_file = ''.github_cache.json'', cache = PyNone\<rparr>
        ''A'' ex_start ex_end [] = (TypeError, [])
   \<and> load_cache (StoredOther (PyList [])) = NotDict (PyList [])
   \<and> get_all_pull_requests_not_dict ex_env
        \<lparr>token = ''t0ken'', base_url = ''https://api.github.com'',
         cache_file = ''.github_cache.json'', cache = PyList []\<rparr>
        ''A'' ex_start ex_end [] = (TypeError, [pulls_request ex_client ''A''])"
proof -
  have load: "load_cache Missing = Dict Map.empty \<and> load_cache Unreadable = Dict Map.empty
      \<and> load_cache Corrupt = Dict Map.empty
      \<and> load_cache (StoredOther PyNone) = NotDict PyNone
      \<and> load_cache (StoredOther (PyList [])) = NotDict (PyList [])"
    by (simp add: load_cache_def)
  have good: "sent (snd (get_all_pull_requests ex_env ''A'' ex_start ex_end ex_world))
       = [pulls_request ex_client ''A'']"
    using empty_cache_fetch_sends [of ex_world ex_env "''A''" ex_start ex_end]
    by (simp add: ex_world_def ex_client_def)
  have init: "GitHubClient_init (Some ''t0ken'') (StoredOther PyNone)
       = Inr \<lparr>token = ''t0ken'', base_url = ''https://api.github.com'',
              cache_file = ''.github_cache.json'', cache = NotDict PyNone\<rparr>"
    by (simp add: GitHubClient_init_def load_cache_def)
  have none: "get_all_pull_requests_not_dict ex_env
        \<lparr>token = ''t0ken'', base_url = ''https://api.github.com'',
         cache_file = ''.github_cache.json'', cache = PyNone\<rparr>
        ''A'' ex_start ex_end [] = (TypeError, [])"
    by (simp add: get_all_pull_requests_not_dict_def py_in_def)
  have list: "get_all_pull_requests_not_dict ex_env
        \<lparr>token = ''t0ken'', base_url = ''https://api.github.com'',
         cache_file = ''.github_cache.json'', cache = PyList []\<rparr>
        ''A'' ex_start ex_end [] = (TypeError, [pulls_request ex_client ''A''])"
    by (simp add: get_all_pull_requests_not_dict_def py_in_def Let_def ex_defs)
  from load good init none list show ?thesis by simp
qed

section \<open>The description of a change\<close>

text \<open>
  C9. The description of a change is the field, a colon and a space, the old value, a
  separator and the new value, with \<open>None\<close> for a value that is missing or null. The
  separator the code writes between the spaces is not the arrow U+2192 but the three
  characters U+00E2, U+2020, U+2019: the description of the status change of the run
  differs from the one with the arrow.
\<close>

theorem change_desc_separator:
  "change_desc item_status = ''status: Open '' @ source_arrow @ '' Done''
   \<and> change_desc item_status \<noteq> ''status: Open '' @ rightwards_arrow @ '' Done''
   \<and> change_desc item_assignee = ''assignee: None '' @ source_arrow @ '' alice''
   \<and> change_desc \<lparr>item_field = ''labels'', fromString = None, toString = Some JNull\<rparr>
       = ''labels: None '' @ source_arrow @ '' None''"
  by (simp add: change_desc_def item_status_def item_assignee_def get_or_None_def
        source_arrow_def rightwards_arrow_def)

section \<open>One record for every issue\<close>

text \<open>
  C10. When the issue-tracker fetch returns, it gives one record for every issue of the
  answer, in the answer's order, with the key, the summary, the status and the update
  time of the issue; an issue all of whose in-range entries change only ignored fields
  (or that has no in-range entry) gets its record too, with no changes.
\<close>

theorem every_issue_gets_a_record:
  assumes "fst (get_user_activities e jc em s d w) = Inr recs"
  shows "\<exists>r data. jira_api e (length (sent w)) (search_request jc em s d) = Some r
           \<and> json_body r = Some data
           \<and> map key recs = map issue_key (issues_of data)
           \<and> map summary recs = map fields_summary (issues_of data)
           \<and> map status recs = map fields_status_name (issues_of data)
           \<and> map updated recs = map fields_updated (issues_of data)
           \<and> (\<forall>i<length recs.
                 (\<forall>h\<in>set (histories_of (issues_of data ! i)).
                     history_in_range e s d h \<longrightarrow> (\<forall>it\<in>set (items_of h). is_ignored it))
                 \<longrightarrow> changes (recs ! i) = [])"
proof -
  from get_user_activities_fst_Inr [OF assms] obtain r data where
    r: "jira_api e (length (sent w)) (search_request jc em s d) = Some r"
      "json_body r = Some data"
    and all2: "list_all2 (emitted e s d) (issues_of data) recs"
    by blast
  have len: "length recs = length (issues_of data)"
    using all2 by (simp add: list_all2_lengthD)
  have fields: "key (recs ! i) = issue_key (issues_of data ! i)
      \<and> summary (recs ! i) = fields_summary (issues_of data ! i)
      \<and> status (recs ! i) = fields_status_name (issues_of data ! i)
      \<and> updated (recs ! i) = fields_updated (issues_of data ! i)"
    if "i < length recs" for i
    using list_all2_nthD2 [OF all2 that] by (simp add: emitted_def)
  from fields len have maps:
    "map key recs = map issue_key (issues_of data)"
    "map summary recs = map fields_summary (issues_of data)"
    "map status recs = map fields_status_name (issues_of data)"
    "map updated recs = map fields_updated (issues_of data)"
    by (simp_all add: list_eq_iff_nth_eq)
  from jira_changes_items [OF assms] r obtain
    ch: "\<forall>i<length recs. changes (recs ! i)
           = map change_desc (filter (\<lambda>it. \<not> is_ignored it)
               (concat (map items_of
                  (filter (history_in_range e s d) (histories_of (issues_of data ! i))))))"
    by auto
  have "changes (recs ! i) = []"
    if i: "i < length recs"
      and ign: "\<forall>h\<in>set (histories_of (issues_of data ! i)).
                  history_in_range e s d h \<longrightarrow> (\<forall>it\<in>set (items_of h). is_ignored it)"
    for i
  proof -
    from ign have "filter (\<lambda>it. \<not> is_ignored it)
        (concat (map items_of
           (filter (history_in_range e s d) (histories_of (issues_of data ! i))))) = []"
      by (auto simp: filter_empty_conv)
    with ch i show ?thesis by simp
  qed
  with r maps show ?thesis by blast
qed

text \<open>
  In the run, issue \<open>API-2\<close> has one entry after the range and one in-range entry that changes
  only ignored fields; its record is there, with no changes.
\<close>

theorem every_issue_gets_a_record_witness:
  "fst (get_user_activities ex_env ex_jira_client ''alice@example.com'' ex_start ex_end
     ex_world) = Inr alice_records
   \<and> (\<exists>r data.
         jira_api ex_env (length (sent ex_world))
           (search_request ex_jira_client ''alice@example.com'' ex_start ex_end) = Some r
         \<and> json_body r = Some data
         \<and> map key alice_records = map issue_key (issues_of data)
         \<and> map summary alice_records = map fields_summary (issues_of data)
         \<and> map status alice_records = map fields_status_name (issues_of data)
         \<and> map updated alice_records = map fields_updated (issues_of data)
         \<and> (\<forall>i<length alice_records.
               (\<forall>h\<in>set (histories_of (issues_of data ! i)).
                   history_in_range ex_env ex_start ex_end h
                     \<longrightarrow> (\<forall>it\<in>set (items_of h). is_ignored it))
               \<longrightarrow> changes (alice_records ! i) = []))
   \<and> map key alice_records = [''API-1'', ''API-2'']
   \<and> changes (alice_records ! 1) = []"
proof -
  note th = every_issue_gets_a_record [OF run_alice]
  have "map key alice_records = [''API-1'', ''API-2''] \<and> changes (alice_records ! 1) = []"
    by (simp add: alice_records_def)
  with th run_alice show ?thesis by blast
qed

section \<open>Failures stay with their repository and member\<close>

text \<open>
  C3. In the loop over the repositories every repository is fetched, whatever the
  fetches before it gave: the pull requests collected are the results of the fetches
  that returned, concatenated in the order of the repositories, and the console has one
  error line for each fetch that raised, with that repository's name. The turn of a
  member prints the header and the line of the issue-tracker part (the error, when the
  fetch raised), runs that loop in the state so reached and ends with the pull requests
  the loop collected. So the pull request summaries of the whole phase are, member by
  member, the concatenated results of the repositories that did not fail in that
  member's turn, the issue-tracker lines are, member by member, what the issue tracker
  gave, and every member has a header, whatever was raised in a turn before.
\<close>

theorem failures_are_isolated:
  "map fst (repo_outcomes e u s d ps w) = map repo_name_of ps
   \<and> fst (fetch_repos e u s d ps [] w) = successes (repo_outcomes e u s d ps w)
   \<and> repo_errors (console (snd (fetch_repos e u s d ps [] w)))
       = repo_errors (console w) @ failures (repo_outcomes e u s d ps w)
   \<and> process_member e jc s d ps m w
       = print_line
           (pr_line (successes (repo_outcomes e (github_user m) s d ps
              (after_jira e jc s d m w))))
           (snd (fetch_repos e (github_user m) s d ps [] (after_jira e jc s d m w)))
   \<and> console (after_jira e jc s d m w)
       = console w @ [MemberHeader (email m), jira_line (jira_result e jc s d m w)]
   \<and> (jira_result e jc s d m w = Inl ex
        \<longrightarrow> jira_line (jira_result e jc s d m w) = JiraError ex)
   \<and> pr_summaries (console (process_member e jc s d ps m w))
       = pr_summaries (console w)
           @ [successes (repo_outcomes e (github_user m) s d ps (after_jira e jc s d m w))]
   \<and> repo_errors (console (process_member e jc s d ps m w))
       = repo_errors (console w)
           @ failures (repo_outcomes e (github_user m) s d ps (after_jira e jc s d m w))
   \<and> pr_summaries (console (per_member_phase e jc s d ps ms w))
       = pr_summaries (console w)
           @ map (\<lambda>(m, wi). successes (repo_outcomes e (github_user m) s d ps
                    (after_jira e jc s d m wi)))
               (zip ms (turn_starts e jc s d ps ms w))
   \<and> repo_errors (console (per_member_phase e jc s d ps ms w))
       = repo_errors (console w)
           @ concat (map (\<lambda>(m, wi). failures (repo_outcomes e (github_user m) s d ps
                    (after_jira e jc s d m wi)))
               (zip ms (turn_starts e jc s d ps ms w)))
   \<and> jira_lines (console (per_member_phase e jc s d ps ms w))
       = jira_lines (console w)
           @ map (\<lambda>(m, wi). jira_line (jira_result e jc s d m wi))
               (zip ms (turn_starts e jc s d ps ms w))
   \<and> member_headers (console (per_member_phase e jc s d ps ms w))
       = member_headers (console w) @ map email ms"
proof -
  note inner = fetch_repos_outcomes [of e u s d ps "[]" w]
  note turn = process_member_report [of e jc s d ps m w]
  note phase = per_member_phase_report [of e jc s d ps ms w]
  have eq: "process_member e jc s d ps m w
       = print_line
           (pr_line (successes (repo_outcomes e (github_user m) s d ps
              (after_jira e jc s d m w))))
           (snd (fetch_repos e (github_user m) s d ps [] (after_jira e jc s d m w)))"
    using fetch_repos_outcomes [of e "github_user m" s d ps "[]" "after_jira e jc s d m w"]
    by (simp add: process_member_eq)
  have err: "jira_result e jc s d m w = Inl ex
        \<longrightarrow> jira_line (jira_result e jc s d m w) = JiraError ex"
    by (simp add: jira_line_def)
  from inner turn phase eq err after_jira_console [of e jc s d m w]
  show ?thesis by simp
qed

text \<open>
  In the run, repository \<open>B\<close> answers 500 and the issue tracker refuses bob: the pull
  requests of \<open>A\<close> and \<open>C\<close> are reported, \<open>B\<close> has its one error line for each member, and bob
  gets his pull requests after his issue-tracker error.
\<close>

theorem failures_are_isolated_witness:
  "repo_outcomes ex_env ''alice'' ex_start ex_end ex_projects ex_world
     = [(''A'', Inr [to_record ''A'' pr1]),
        (''B'', Inl (Exception ''GitHub API error: 500 - boom'')),
        (''C'', Inr [to_record ''C'' pr5])]
   \<and> map repo_name_of ex_projects = [''A'', ''B'', ''C'']
   \<and> fst (fetch_repos ex_env ''alice'' ex_start ex_end ex_projects [] ex_world)
     = [to_record ''A'' pr1, to_record ''C'' pr5]
   \<and> repo_errors (console (snd (fetch_repos ex_env ''alice'' ex_start ex_end ex_projects []
        ex_world)))
     = [(''B'', Exception ''GitHub API error: 500 - boom'')]
   \<and> console (per_member_phase ex_env ex_jira_client ex_start ex_end ex_projects ex_members
        ex_world)
     = [MemberHeader ''alice@example.com'',
        JiraActivities alice_records,
        RepoError ''B'' (Exception ''GitHub API error: 500 - boom''),
        PullRequests [to_record ''A'' pr1, to_record ''C'' pr5],
        MemberHeader ''bob@example.com'',
        JiraError (Exception ''Jira API error: 403 - Forbidden''),
        RepoError ''B'' (Exception ''GitHub API error: 500 - boom''),
        PullRequests [to_record ''A'' pr2]]
   \<and> pr_summaries (console (per_member_phase ex_env ex_jira_client ex_start ex_end
        ex_projects ex_members ex_world))
     = [[to_record ''A'' pr1, to_record ''C'' pr5], [to_record ''A'' pr2]]
   \<and> map (\<lambda>(m, wi). successes (repo_outcomes ex_env (github_user m) ex_start ex_end
              ex_projects (after_jira ex_env ex_jira_client ex_start ex_end m wi)))
         (zip ex_members
            (turn_starts ex_env ex_jira_client ex_start ex_end ex_projects ex_members ex_world))
     = [[to_record ''A'' pr1, to_record ''C'' pr5], [to_record ''A'' pr2]]
   \<and> jira_lines (console (per_member_phase ex_env ex_jira_client ex_start ex_end
        ex_projects ex_members ex_world))
     = [JiraActivities alice_records,
        JiraError (Exception ''Jira API error: 403 - Forbidden'')]
   \<and> map (\<lambda>(m, wi). jira_line (jira_result ex_env ex_jira_client ex_start ex_end m wi))
         (zip ex_members
            (turn_starts ex_env ex_jira_client ex_start ex_end ex_projects ex_members ex_world))
     = [JiraActivities alice_records,
        JiraError (Exception ''Jira API error: 403 - Forbidden'')]
   \<and> repo_errors (console (per_member_phase ex_env ex_jira_client ex_start ex_end
        ex_projects ex_members ex_world))
     = [(''B'', Exception ''GitHub API error: 500 - boom''),
        (''B'', Exception ''GitHub API error: 500 - boom'')]
   \<and> member_headers (console (per_member_phase ex_env ex_jira_client ex_start ex_end
        ex_projects ex_members ex_world))
     = [''alice@example.com'', ''bob@example.com'']"
proof -
  note th = failures_are_isolated [of ex_env "''alice''" ex_start ex_end ex_projects ex_world
      ex_jira_client "hd ex_members" "Exception []" ex_members]
  have start: "console ex_world = []"
    by (simp add: ex_world_def)
  from th have names: "map repo_name_of ex_projects = [''A'', ''B'', ''C'']"
    by (simp only: run_alice_repos) simp
  have prs: "fst (fetch_repos ex_env ''alice'' ex_start ex_end ex_projects [] ex_world)
     = [to_record ''A'' pr1, to_record ''C'' pr5]"
    using th [THEN conjunct2, THEN conjunct1] by (simp add: run_alice_repos)
  have errs: "repo_errors (console (snd (fetch_repos ex_env ''alice'' ex_start ex_end
        ex_projects [] ex_world)))
     = [(''B'', Exception ''GitHub API error: 500 - boom'')]"
    using th [THEN conjunct2, THEN conjunct2, THEN conjunct1]
    by (simp add: run_alice_repos start)
  note phase = th [THEN conjunct2, THEN conjunct2, THEN conjunct2, THEN conjunct2,
      THEN conjunct2, THEN conjunct2, THEN conjunct2, THEN conjunct2]
  have sums: "pr_summaries (console (per_member_phase ex_env ex_jira_client ex_start ex_end
        ex_projects ex_members ex_world))
     = [[to_record ''A'' pr1, to_record ''C'' pr5], [to_record ''A'' pr2]]"
    by (simp add: run_team_console)
  have jira: "jira_lines (console (per_member_phase ex_env ex_jira_client ex_start ex_end
        ex_projects ex_members ex_world))
     = [JiraActivities alice_records,
        JiraError (Exception ''Jira API error: 403 - Forbidden'')]"
    by (simp add: run_team_console)
  have rerrs: "repo_errors (console (per_member_phase ex_env ex_jira_client ex_start ex_end
        ex_projects ex_members ex_world))
     = [(''B'', Exception ''GitHub API error: 500 - boom''),
        (''B'', Exception ''GitHub API error: 500 - boom'')]"
    by (simp add: run_team_console)
  have heads: "member_headers (console (per_member_phase ex_env ex_jira_client ex_start
        ex_end ex_projects ex_members ex_world))
     = [''alice@example.com'', ''bob@example.com'']"
    by (simp add: run_team_console)
  have sums': "map (\<lambda>(m, wi). successes (repo_outcomes ex_env (github_user m) ex_start ex_end
              ex_projects (after_jira ex_env ex_jira_client ex_start ex_end m wi)))
         (zip ex_members
            (turn_starts ex_env ex_jira_client ex_start ex_end ex_projects ex_members ex_world))
     = [[to_record ''A'' pr1, to_record ''C'' pr5], [to_record ''A'' pr2]]"
    using phase [THEN conjunct1] sums start by simp
  have jira': "map (\<lambda>(m, wi). jira_line (jira_result ex_env ex_jira_client ex_start ex_end m wi))
         (zip ex_members
            (turn_starts ex_env ex_jira_client ex_start ex_end ex_projects ex_members ex_world))
     = [JiraActivities alice_records,
        JiraError (Exception ''Jira API error: 403 - Forbidden'')]"
    using phase [THEN conjunct2, THEN conjunct2, THEN conjunct1] jira start by simp
  from run_alice_repos names prs errs run_team_console sums sums' jira jira' rerrs heads
  show ?thesis by (intro conjI)
qed

end
